theory Spec2Isabelle
  imports
    Complex_Main
    "HOL-Library.Char_ord"
    "HOL-Library.List_Lexorder"
    "HOL-Library.Product_Lexorder"
    "HOL-Library.AList"
begin

section \<open>Canton DAR upload and vetting scripts\<close>

text \<open>
  A shallow embedding of \<^verbatim>\<open>scripts/upload_dar.py\<close> and \<^verbatim>\<open>vet_dar.py\<close>.
  The scripts talk to two participants through \<^verbatim>\<open>grpcurl\<close> subprocesses
  (app-provider on port 3902, app-user on port 2902), read a DAR file and rewrite
  \<^verbatim>\<open>src/config/packageConfig.js\<close>.

  What the scripts only observe is gathered in the record \<open>env\<close>: the command line,
  the answers of the \<^verbatim>\<open>grpcurl\<close> subprocesses, and the library functions
  \<^verbatim>\<open>json.loads\<close>, \<^verbatim>\<open>yaml.safe_load\<close>, \<^verbatim>\<open>base64.b64encode\<close> and \<^verbatim>\<open>str\<close>
  (on values that are not strings), which are taken as parameters.
  What the scripts change is the record \<open>state\<close>: the files, and a trace of the
  subprocess calls made and of the vetting warnings printed, in order. All other console
  output is left out.

  \<^verbatim>\<open>subprocess.run\<close> is taken to return a completed process: \<^verbatim>\<open>grpcurl\<close> reports
  a failure to reach a participant by a non-zero return code.
  Reading or writing a file can fail where \<open>unreadable\<close> or \<open>unwritable\<close> say so,
  for the manifest and the registry file; a DAR file that exists is taken to be
  readable. A file is the text that Python reads from it, but for the line endings:
  reading in text mode gives CR LF and CR as LF (\<open>universal_newlines\<close>), writing in
  text mode leaves the text as it is (POSIX).
  A \<^verbatim>\<open>sys.exit(1)\<close> and an exception that no handler catches both end the run; the
  datatype \<open>error\<close> says which one it was.
  Strings are lists of 8-bit characters, read as the code points below 256.
\<close>

subsection \<open>Python values\<close>

text \<open>The objects that \<^verbatim>\<open>json.loads\<close> and \<^verbatim>\<open>yaml.safe_load\<close> return.
  A dictionary is the list of its items; a later item with the same key wins.\<close>

datatype pyobj =
    PNone
  | PBool bool
  | PInt int
  | PFloat rat
  | PStr string
  | PList "pyobj list"
  | PDict "(string \<times> pyobj) list"

datatype exn = JSONDecodeError | AttributeError | TypeError | KeyError | IndexError

text \<open>
  How a run ends when it does not complete:
  \<^item> \<open>UsageError\<close>: the usage message and \<^verbatim>\<open>sys.exit(1)\<close> of either \<^verbatim>\<open>main\<close>;
  \<^item> \<open>ConfigError\<close>: the three \<^verbatim>\<open>sys.exit(1)\<close> of \<^verbatim>\<open>read_version_from_daml_yaml\<close>;
  \<^item> \<open>ArtifactNotFoundError\<close>: the DAR file is missing (\<^verbatim>\<open>upload_dar\<close>, first check);
  \<^item> \<open>DistributionError\<close>: the three \<^verbatim>\<open>sys.exit(1)\<close> of \<^verbatim>\<open>upload_dar\<close> after
    the first upload, the missing package id and the second upload;
  \<^item> \<open>RegistryWriteError\<close>: an \<^verbatim>\<open>OSError\<close> of \<^verbatim>\<open>open\<close> or \<^verbatim>\<open>os.makedirs\<close> in
    \<^verbatim>\<open>update_package_config\<close>, which has no handler;
  \<^item> \<open>VettingIncomplete\<close>: the final \<^verbatim>\<open>sys.exit(1)\<close> of \<^verbatim>\<open>vet_dar.py\<close>;
  \<^item> \<open>Uncaught x\<close>: an exception raised while the response of the first upload is
    decoded, which has no handler either.
\<close>

datatype error =
    UsageError
  | ConfigError
  | ArtifactNotFoundError
  | DistributionError
  | RegistryWriteError
  | VettingIncomplete
  | Uncaught exn

text \<open>Truth value of an object, as \<^verbatim>\<open>if x\<close> and \<^verbatim>\<open>not x\<close> test it.\<close>

fun truthy :: "pyobj \<Rightarrow> bool" where
  "truthy PNone = False"
| "truthy (PBool b) = b"
| "truthy (PInt n) = (n \<noteq> 0)"
| "truthy (PFloat x) = (x \<noteq> 0)"
| "truthy (PStr s) = (s \<noteq> [])"
| "truthy (PList xs) = (xs \<noteq> [])"
| "truthy (PDict kvs) = (kvs \<noteq> [])"

text \<open>\<^verbatim>\<open>obj.get(key)\<close>: only a dictionary has the method.\<close>

fun py_get :: "pyobj \<Rightarrow> string \<Rightarrow> exn + pyobj" where
  "py_get (PDict kvs) key =
     Inr (case map_of (rev kvs) key of None \<Rightarrow> PNone | Some v \<Rightarrow> v)"
| "py_get _ key = Inl AttributeError"

text \<open>\<^verbatim>\<open>obj[key]\<close> for a string key.\<close>

fun py_getitem :: "pyobj \<Rightarrow> string \<Rightarrow> exn + pyobj" where
  "py_getitem (PDict kvs) key =
     (case map_of (rev kvs) key of None \<Rightarrow> Inl KeyError | Some v \<Rightarrow> Inr v)"
| "py_getitem _ key = Inl TypeError"

text \<open>\<^verbatim>\<open>obj[0]\<close>.\<close>

fun py_index0 :: "pyobj \<Rightarrow> exn + pyobj" where
  "py_index0 (PList []) = Inl IndexError"
| "py_index0 (PList (x # xs)) = Inr x"
| "py_index0 (PStr []) = Inl IndexError"
| "py_index0 (PStr (c # cs)) = Inr (PStr [c])"
| "py_index0 (PDict kvs) = Inl KeyError"
| "py_index0 _ = Inl TypeError"

subsection \<open>The environment and the state\<close>

record proc =
  returncode :: int
  stdout :: string
  stderr :: string

text \<open>
  A \<^verbatim>\<open>grpcurl\<close> call: the port of the participant and the request.
  \<open>UploadDar bytes description\<close> is the payload sent to
  \<^verbatim>\<open>PackageService/UploadDar\<close> (its one DAR, with \<^verbatim>\<open>vet_all_packages\<close> and
  \<^verbatim>\<open>synchronize_vetting\<close> set), \<open>VetDar main_package_id\<close> the payload sent to
  \<^verbatim>\<open>PackageService/VetDar\<close> (with \<^verbatim>\<open>synchronize\<close> set).
\<close>

datatype request =
    UploadDar string string
  | VetDar pyobj

datatype call = Grpcurl nat request

datatype event =
    Call call
  | Warning string string

record env =
  argv :: "string list"
  PROJECT_ROOT :: string
  grpcurl :: "call \<Rightarrow> proc"
  json_loads :: "string \<Rightarrow> pyobj option"
  yaml_safe_load :: "string \<Rightarrow> pyobj option"
  b64encode :: "string \<Rightarrow> string"
  py_format :: "pyobj \<Rightarrow> string"
  unreadable :: "string \<Rightarrow> bool"
  unwritable :: "string \<Rightarrow> bool"
  partial_write :: "string \<Rightarrow> nat option"

record state =
  trace :: "event list"
  files :: "string \<rightharpoonup> string"

text \<open>\<^verbatim>\<open>str(x)\<close>, which an f-string applies: a string is itself.\<close>

definition py_str :: "env \<Rightarrow> pyobj \<Rightarrow> string" where
  "py_str e x = (case x of PStr s \<Rightarrow> s | _ \<Rightarrow> py_format e x)"

definition subprocess_run :: "env \<Rightarrow> call \<Rightarrow> state \<Rightarrow> proc \<times> state" where
  "subprocess_run e c st = (grpcurl e c, st\<lparr>trace := trace st @ [Call c]\<rparr>)"

definition warn :: "string \<Rightarrow> string \<Rightarrow> state \<Rightarrow> state" where
  "warn participant_name detail st = st\<lparr>trace := trace st @ [Warning participant_name detail]\<rparr>"

subsection \<open>Paths\<close>

text \<open>\<^verbatim>\<open>os.path.join\<close> of two components (POSIX).\<close>

definition path_join :: "string \<Rightarrow> string \<Rightarrow> string" where
  "path_join a b =
     (if take 1 b = ''/'' then b
      else if a = [] \<or> last a = CHR ''/'' then a @ b
      else a @ ''/'' @ b)"

definition DAML_PROJECT_PATH :: "env \<Rightarrow> string" where
  "DAML_PROJECT_PATH e = path_join (path_join (PROJECT_ROOT e) ''daml'') ''minimal-token''"

definition DAML_YAML_PATH :: "env \<Rightarrow> string" where
  "DAML_YAML_PATH e = path_join (DAML_PROJECT_PATH e) ''daml.yaml''"

definition get_dar_path :: "env \<Rightarrow> string \<Rightarrow> string" where
  "get_dar_path e version =
     (let dar_dist_path = path_join (path_join (DAML_PROJECT_PATH e) ''.daml'') ''dist'';
          dar_file = ''minimal-token-'' @ version @ ''.dar''
      in path_join dar_dist_path dar_file)"

definition config_path :: "env \<Rightarrow> string" where
  "config_path e =
     path_join (path_join (path_join (PROJECT_ROOT e) ''src'') ''config'') ''packageConfig.js''"

subsection \<open>Reading a file in text mode\<close>

text \<open>
  \<^verbatim>\<open>open(path, 'r')\<close> translates the line endings: a carriage return followed by a
  line feed, and a carriage return alone, are read as one line feed.
\<close>

fun universal_newlines :: "string \<Rightarrow> string" where
  "universal_newlines [] = []"
| "universal_newlines [a] = [if a = CHR 0x0D then CHR ''\<newline>'' else a]"
| "universal_newlines (a # b # cs) =
     (if a = CHR 0x0D \<and> b = CHR ''\<newline>'' then CHR ''\<newline>'' # universal_newlines cs
      else if a = CHR 0x0D then CHR ''\<newline>'' # universal_newlines (b # cs)
      else a # universal_newlines (b # cs))"

subsection \<open>The registry file: parsing\<close>

text \<open>
  \<^verbatim>\<open>\s\<close> of a \<^verbatim>\<open>str\<close> pattern: the white space among the code points below 256.
\<close>

definition is_space :: "char \<Rightarrow> bool" where
  "is_space c \<longleftrightarrow>
     (of_char c :: nat) \<in> {9, 10, 11, 12, 13, 28, 29, 30, 31, 32, 133, 160}"

definition quote :: char where
  "quote = CHR 0x27"

text \<open>
  \<^verbatim>\<open>re.search(r"versions:\s*{([^}]*)}", content, re.DOTALL)\<close>.
  \<open>match_versions_at s\<close> is the attempt to match at the start of \<open>s\<close>; it gives
  group 1. After the literal \<^verbatim>\<open>versions:\<close> the pattern has one way to go on: \<^verbatim>\<open>\s*\<close>
  is followed by a brace, which is no white space, and \<^verbatim>\<open>[^}]*\<close> by the closing
  brace, so giving back characters never helps.
  \<open>re_search_versions\<close> tries the positions from left to right.
\<close>

definition match_versions_at :: "string \<Rightarrow> string option" where
  "match_versions_at s =
     (if take 9 s = ''versions:'' then
        (case dropWhile is_space (drop 9 s) of
           [] \<Rightarrow> None
         | c # t \<Rightarrow>
             if c = CHR ''{'' \<and> CHR ''}'' \<in> set t
             then Some (takeWhile (\<lambda>x. x \<noteq> CHR ''}'') t)
             else None)
      else None)"

fun re_search_versions :: "string \<Rightarrow> string option" where
  "re_search_versions [] = None"
| "re_search_versions (c # cs) =
     (case match_versions_at (c # cs) of
        Some versions_str \<Rightarrow> Some versions_str
      | None \<Rightarrow> re_search_versions cs)"

text \<open>
  \<^verbatim>\<open>re.finditer(r"'([^']+)':\s*'([^']+)'", versions_str)\<close>.
  \<open>match_entry_at s\<close> is the attempt at the start of \<open>s\<close>; it gives group 1, group 2
  and the text after the match. Again each repetition is followed by a character it
  cannot take, so the match at a position is unique.
  \<open>re_finditer_entries\<close> goes on after the end of each match, and one character on
  where there is none.
\<close>

definition match_entry_at :: "string \<Rightarrow> (string \<times> string \<times> string) option" where
  "match_entry_at s =
     (case s of
        [] \<Rightarrow> None
      | c # t \<Rightarrow>
          if c \<noteq> quote then None
          else
            let g1 = takeWhile (\<lambda>x. x \<noteq> quote) t;
                r1 = dropWhile (\<lambda>x. x \<noteq> quote) t
            in if g1 = [] \<or> r1 = [] then None
               else
                 (case tl r1 of
                    [] \<Rightarrow> None
                  | c2 # r2 \<Rightarrow>
                      if c2 \<noteq> CHR '':'' then None
                      else
                        (case dropWhile is_space r2 of
                           [] \<Rightarrow> None
                         | c3 # r3 \<Rightarrow>
                             if c3 \<noteq> quote then None
                             else
                               let g2 = takeWhile (\<lambda>x. x \<noteq> quote) r3;
                                   r4 = dropWhile (\<lambda>x. x \<noteq> quote) r3
                               in if g2 = [] \<or> r4 = [] then None
                                  else Some (g1, g2, tl r4))))"

function re_finditer_entries :: "string \<Rightarrow> (string \<times> string) list" where
  "re_finditer_entries [] = []"
| "re_finditer_entries (c # cs) =
     (case match_entry_at (c # cs) of
        Some (g1, g2, rest) \<Rightarrow> (g1, g2) # re_finditer_entries rest
      | None \<Rightarrow> re_finditer_entries cs)"
  by pat_completeness auto
termination
proof (relation "measure length")
  show "wf (measure length)" by simp
next
  fix c :: char and cs x2 g1 y g2 rest
  assume m: "match_entry_at (c # cs) = Some x2" and x: "(g1, y) = x2" and y: "(g2, rest) = y"
  have le: "\<And>P (xs :: string). length (dropWhile P xs) \<le> length xs"
    by (rule length_dropWhile_le)
  from m x y obtain r1 c2 r2 c3 r3 r4 where
    r1: "r1 = dropWhile (\<lambda>x. x \<noteq> quote) cs" "r1 \<noteq> []" and
    r2: "tl r1 = c2 # r2" and
    r3: "dropWhile is_space r2 = c3 # r3" and
    r4: "r4 = dropWhile (\<lambda>x. x \<noteq> quote) r3" "r4 \<noteq> []" and
    rest: "rest = tl r4"
    by (auto simp: match_entry_at_def Let_def split: if_splits list.splits)
  have "length rest < length r4" using r4 rest by (cases r4) auto
  also have "\<dots> \<le> length r3" using r4 le by simp
  also have "\<dots> < length (dropWhile is_space r2)" using r3 by simp
  also have "\<dots> \<le> length r2" by (rule le)
  also have "\<dots> < length (tl r1)" using r2 by simp
  also have "\<dots> \<le> length r1" by simp
  also have "\<dots> \<le> length cs" using r1 le by simp
  finally show "(rest, c # cs) \<in> measure length" by simp
next
  fix c :: char and cs
  assume "match_entry_at (c # cs) = None"
  show "(cs, c # cs) \<in> measure length" by simp
qed

text \<open>
  The parsing step of \<^verbatim>\<open>update_package_config\<close>: the dictionary \<^verbatim>\<open>versions\<close>
  before the new version is added. A dictionary is the list of its items in insertion
  order; \<^verbatim>\<open>versions[k] = v\<close> is \<open>AList.update k v\<close>, which replaces the value of
  a key that is there and appends the item otherwise.
\<close>

definition parse_versions :: "string \<Rightarrow> (string \<times> string) list" where
  "parse_versions content =
     (case re_search_versions content of
        None \<Rightarrow> []
      | Some versions_str \<Rightarrow>
          foldl (\<lambda>versions (g1, g2). AList.update g1 g2 versions) []
            (re_finditer_entries versions_str))"

subsection \<open>The registry file: writing\<close>

text \<open>\<^verbatim>\<open>sep.join(parts)\<close>.\<close>

fun str_join :: "string \<Rightarrow> string list \<Rightarrow> string" where
  "str_join sep [] = []"
| "str_join sep [x] = x"
| "str_join sep (x # y # ys) = x @ sep @ str_join sep (y # ys)"

text \<open>The f-string \<^verbatim>\<open>f"'{v}': '{pid}'"\<close>.\<close>

definition format_entry :: "string \<times> string \<Rightarrow> string" where
  "format_entry = (\<lambda>(v, pid). [quote] @ v @ [quote] @ '': '' @ [quote] @ pid @ [quote])"

text \<open>
  \<^verbatim>\<open>sorted(versions.items(), reverse=True)\<close> compares the items as pairs; the keys
  of a dictionary differ, so no two items are equal and the result is the ascending
  order reversed.
\<close>

definition build_versions_str :: "(string \<times> string) list \<Rightarrow> string" where
  "build_versions_str versions =
     str_join '',\<newline>    '' (map format_entry (rev (sort versions)))"

text \<open>The content written when no file exists yet.\<close>

definition default_content :: string where
  "default_content =
     ''// MinimalToken Package Configuration\<newline>'' @
     ''// This file is auto-generated by upload_dar.py\<newline>'' @
     ''\<newline>'' @
     ''export const MINIMAL_TOKEN_PACKAGE_CONFIG = {\<newline>'' @
     ''  // Current active version\<newline>'' @
     ''  currentVersion: null,\<newline>'' @
     ''  currentPackageId: null,\<newline>'' @
     ''\<newline>'' @
     ''  // All deployed versions\<newline>'' @
     ''  versions: {}\<newline>'' @
     ''};\<newline>'' @
     ''\<newline>'' @
     ''export default MINIMAL_TOKEN_PACKAGE_CONFIG;\<newline>''"

text \<open>The f-string \<^verbatim>\<open>new_content\<close>.\<close>

definition new_content :: "string \<Rightarrow> string \<Rightarrow> string \<Rightarrow> string" where
  "new_content version package_id versions_str =
     ''// MinimalToken Package Configuration\<newline>'' @
     ''// This file is auto-generated by upload_dar.py\<newline>'' @
     ''\<newline>'' @
     ''export const MINIMAL_TOKEN_PACKAGE_CONFIG = {\<newline>'' @
     ''  // Current active version\<newline>'' @
     ''  currentVersion: '' @ [quote] @ version @ [quote] @ '',\<newline>'' @
     ''  currentPackageId: '' @ [quote] @ package_id @ [quote] @ '',\<newline>'' @
     ''\<newline>'' @
     ''  // All deployed versions (newest first)\<newline>'' @
     ''  versions: {\<newline>'' @
     ''    '' @ versions_str @ ''\<newline>'' @
     ''  }\<newline>'' @
     ''};\<newline>'' @
     ''\<newline>'' @
     ''export default MINIMAL_TOKEN_PACKAGE_CONFIG;\<newline>''"

text \<open>
  \<^verbatim>\<open>update_package_config\<close> from the content read to the content written.
  \<open>merged_versions\<close> is the dictionary \<^verbatim>\<open>versions\<close> after
  \<^verbatim>\<open>versions[version] = package_id\<close>. The dictionary holds the package id as the
  string that the f-strings make of it.
\<close>

definition merged_versions :: "string \<Rightarrow> string \<Rightarrow> string \<Rightarrow> (string \<times> string) list" where
  "merged_versions content package_id version =
     AList.update version package_id (parse_versions content)"

definition rewritten_content :: "string \<Rightarrow> string \<Rightarrow> string \<Rightarrow> string" where
  "rewritten_content content package_id version =
     new_content version package_id
       (build_versions_str (merged_versions content package_id version))"

text \<open>
  The first part of \<^verbatim>\<open>update_package_config\<close>: the content of the registry file, read
  in text mode, or the default content when there is no file.
\<close>

definition read_config :: "env \<Rightarrow> state \<Rightarrow> error + string" where
  "read_config e st =
     (case files st (config_path e) of
        Some text \<Rightarrow>
          if unreadable e (config_path e) then Inl RegistryWriteError
          else Inr (universal_newlines text)
      | None \<Rightarrow> Inr default_content)"

text \<open>
  Writing fails where \<open>unwritable\<close> says so. When \<^verbatim>\<open>os.makedirs\<close> or \<^verbatim>\<open>open\<close> raise,
  the file is as before (\<open>partial_write\<close> is \<open>None\<close>); when \<^verbatim>\<open>open\<close> succeeded, the
  file has been truncated, and \<open>partial_write\<close> gives the number of characters that
  reached it before the write failed.
\<close>

definition update_package_config ::
  "env \<Rightarrow> pyobj \<Rightarrow> string \<Rightarrow> state \<Rightarrow> (error + unit) \<times> state" where
  "update_package_config e package_id version st =
     (case read_config e st of
        Inl err \<Rightarrow> (Inl err, st)
      | Inr content \<Rightarrow>
          let text = rewritten_content content (py_str e package_id) version
          in if unwritable e (config_path e) then
               (Inl RegistryWriteError,
                case partial_write e (config_path e) of
                  None \<Rightarrow> st
                | Some n \<Rightarrow> st\<lparr>files := (files st)(config_path e \<mapsto> take n text)\<rparr>)
             else (Inr (), st\<lparr>files := (files st)(config_path e \<mapsto> text)\<rparr>))"

subsection \<open>Upload and vetting\<close>

definition vet_dar :: "env \<Rightarrow> pyobj \<Rightarrow> state \<Rightarrow> state" where
  "vet_dar e package_id st =
     (let vet_request = VetDar package_id;
          (result_provider, st1) = subprocess_run e (Grpcurl 3902 vet_request) st;
          st2 = (if returncode result_provider \<noteq> 0
                 then warn ''app-provider'' (stderr result_provider) st1 else st1);
          (result_user, st3) = subprocess_run e (Grpcurl 2902 vet_request) st2
      in if returncode result_user \<noteq> 0
         then warn ''app-user'' (stderr result_user) st3 else st3)"

text \<open>
  The conditional expression
  \<^verbatim>\<open>provider_response['darIds'][0] if provider_response.get('darIds') else None\<close>.
\<close>

definition extract_package_id :: "pyobj \<Rightarrow> exn + pyobj" where
  "extract_package_id provider_response =
     (case py_get provider_response ''darIds'' of
        Inl x \<Rightarrow> Inl x
      | Inr cond \<Rightarrow>
          if truthy cond then
            (case py_getitem provider_response ''darIds'' of
               Inl x \<Rightarrow> Inl x
             | Inr dar_ids \<Rightarrow> py_index0 dar_ids)
          else Inr PNone)"

text \<open>
  What \<^verbatim>\<open>upload_dar\<close> does with the result of the upload to app-provider, from the
  test of the return code to the test of the package id: the package id, or the way
  the run ends.
\<close>

definition provider_package_id :: "env \<Rightarrow> proc \<Rightarrow> error + pyobj" where
  "provider_package_id e result_provider =
     (if returncode result_provider \<noteq> 0 then Inl DistributionError
      else
        (case json_loads e (stdout result_provider) of
           None \<Rightarrow> Inl (Uncaught JSONDecodeError)
         | Some provider_response \<Rightarrow>
             (case extract_package_id provider_response of
                Inl x \<Rightarrow> Inl (Uncaught x)
              | Inr package_id \<Rightarrow>
                  if \<not> truthy package_id then Inl DistributionError
                  else Inr package_id)))"

definition upload_request :: "env \<Rightarrow> string \<Rightarrow> string \<Rightarrow> request" where
  "upload_request e dar_bytes version =
     UploadDar (b64encode e dar_bytes)
       (''MinimalToken v'' @ version @ '' - ProposeBurn/AcceptBurn pattern'')"

definition upload_dar ::
  "env \<Rightarrow> string \<Rightarrow> string \<Rightarrow> state \<Rightarrow> (error + pyobj) \<times> state" where
  "upload_dar e dar_path version st =
     (case files st dar_path of
        None \<Rightarrow> (Inl ArtifactNotFoundError, st)
      | Some dar_bytes \<Rightarrow>
          let request = upload_request e dar_bytes version;
              (result_provider, st1) = subprocess_run e (Grpcurl 3902 request) st
          in case provider_package_id e result_provider of
               Inl err \<Rightarrow> (Inl err, st1)
             | Inr package_id \<Rightarrow>
                 let (result_user, st2) = subprocess_run e (Grpcurl 2902 request) st1
                 in if returncode result_user \<noteq> 0 then (Inl DistributionError, st2)
                    else (Inr package_id, vet_dar e package_id st2))"

subsection \<open>The two commands\<close>

definition read_version_from_daml_yaml :: "env \<Rightarrow> state \<Rightarrow> error + string" where
  "read_version_from_daml_yaml e st =
     (case files st (DAML_YAML_PATH e) of
        None \<Rightarrow> Inl ConfigError
      | Some text \<Rightarrow>
          if unreadable e (DAML_YAML_PATH e) then Inl ConfigError
          else
            (case yaml_safe_load e (universal_newlines text) of
               None \<Rightarrow> Inl ConfigError
             | Some daml_config \<Rightarrow>
                 (case py_get daml_config ''version'' of
                    Inl x \<Rightarrow> Inl ConfigError
                  | Inr version \<Rightarrow>
                      if \<not> truthy version then Inl ConfigError
                      else Inr (py_str e version))))"

text \<open>\<^verbatim>\<open>main\<close> of \<^verbatim>\<open>scripts/upload_dar.py\<close>. \<open>resolve_version\<close> is its first
  part, up to the version to work on.\<close>

definition resolve_version :: "env \<Rightarrow> state \<Rightarrow> error + string" where
  "resolve_version e st =
     (if length (argv e) > 2 then Inl UsageError
      else if length (argv e) = 2 then Inr (argv e ! 1)
      else read_version_from_daml_yaml e st)"

definition upload_dar_main :: "env \<Rightarrow> state \<Rightarrow> (error + unit) \<times> state" where
  "upload_dar_main e st =
     (case resolve_version e st of
          Inl err \<Rightarrow> (Inl err, st)
        | Inr version \<Rightarrow>
            (case upload_dar e (get_dar_path e version) version st of
               (Inl err, st1) \<Rightarrow> (Inl err, st1)
             | (Inr package_id, st1) \<Rightarrow> update_package_config e package_id version st1))"

text \<open>\<^verbatim>\<open>vet_dar.py\<close>.\<close>

definition vet_dar_on_participant ::
  "env \<Rightarrow> string \<Rightarrow> nat \<Rightarrow> string \<Rightarrow> state \<Rightarrow> bool \<times> state" where
  "vet_dar_on_participant e package_id port participant_name st =
     (let (result, st1) = subprocess_run e (Grpcurl port (VetDar (PStr package_id))) st
      in if returncode result \<noteq> 0
         then (False, warn participant_name (stderr result) st1)
         else (True, st1))"

definition vet_dar_main :: "env \<Rightarrow> state \<Rightarrow> (error + unit) \<times> state" where
  "vet_dar_main e st =
     (if length (argv e) \<noteq> 2 then (Inl UsageError, st)
      else
        let package_id = argv e ! 1;
            (success_provider, st1) =
              vet_dar_on_participant e package_id 3902 ''app-provider'' st;
            (success_user, st2) =
              vet_dar_on_participant e package_id 2902 ''app-user'' st1
        in if success_provider \<and> success_user then (Inr (), st2)
           else (Inl VettingIncomplete, st2))"

text \<open>The exit status of the process: 1 after \<^verbatim>\<open>sys.exit(1)\<close> and after an
  exception that nothing catches, 0 when \<^verbatim>\<open>main\<close> returns.\<close>

definition exit_status :: "error + unit \<Rightarrow> int" where
  "exit_status r = (case r of Inl err \<Rightarrow> 1 | Inr u \<Rightarrow> 0)"

subsection \<open>The registry as it is read, and the text expected in the file\<close>

text \<open>
  The entries that \<^verbatim>\<open>update_package_config\<close> finds in the registry file of a state:
  its reading and parsing steps, before the new version is added.
\<close>

definition registry_entries :: "env \<Rightarrow> state \<Rightarrow> error + (string \<times> string) list" where
  "registry_entries e st =
     (case read_config e st of
        Inl err \<Rightarrow> Inl err
      | Inr content \<Rightarrow> Inr (parse_versions content))"

text \<open>
  The text of a registry file, spelled out character by character for the statements
  below: the version and the package id between quotes in the two slots for the
  current version, and \<open>items\<close> listed in the versions block in the order of the
  list, each as \<^verbatim>\<open>'version': 'id'\<close>, separated by a comma, a line feed and four
  spaces. These are abbreviations: a statement that uses them is a statement about
  these characters.
\<close>

abbreviation entry_line :: "string \<times> string \<Rightarrow> string" where
  "entry_line x \<equiv> [CHR 0x27] @ fst x @ [CHR 0x27] @ '': '' @ [CHR 0x27] @ snd x @ [CHR 0x27]"

abbreviation listed_entries :: "(string \<times> string) list \<Rightarrow> string" where
  "listed_entries items \<equiv>
     (case items of
        [] \<Rightarrow> []
      | x # xs \<Rightarrow> entry_line x @ concat (map (\<lambda>y. '',\<newline>    '' @ entry_line y) xs))"

abbreviation registry_text :: "string \<Rightarrow> string \<Rightarrow> (string \<times> string) list \<Rightarrow> string" where
  "registry_text version package_id items \<equiv>
     ''// MinimalToken Package Configuration\<newline>'' @
     ''// This file is auto-generated by upload_dar.py\<newline>'' @
     ''\<newline>'' @
     ''export const MINIMAL_TOKEN_PACKAGE_CONFIG = {\<newline>'' @
     ''  // Current active version\<newline>'' @
     ''  currentVersion: '' @ [CHR 0x27] @ version @ [CHR 0x27] @ '',\<newline>'' @
     ''  currentPackageId: '' @ [CHR 0x27] @ package_id @ [CHR 0x27] @ '',\<newline>'' @
     ''\<newline>'' @
     ''  // All deployed versions (newest first)\<newline>'' @
     ''  versions: {\<newline>'' @
     ''    '' @ listed_entries items @ ''\<newline>'' @
     ''  }\<newline>'' @
     ''};\<newline>'' @
     ''\<newline>'' @
     ''export default MINIMAL_TOKEN_PACKAGE_CONFIG;\<newline>''"

subsection \<open>Texts that the registry file can carry\<close>

text \<open>
  The f-strings put a version and a package id between quotes as they are, nothing is
  escaped. \<open>entry_text\<close> holds of the texts that the pattern of an entry can give
  back from inside a versions block; \<open>plain_text\<close> also excludes the opening brace
  and the carriage return.
\<close>

definition entry_text :: "string \<Rightarrow> bool" where
  "entry_text s \<longleftrightarrow> s \<noteq> [] \<and> quote \<notin> set s \<and> CHR ''}'' \<notin> set s"

definition plain_text :: "string \<Rightarrow> bool" where
  "plain_text s \<longleftrightarrow>
     s \<noteq> [] \<and> quote \<notin> set s \<and> CHR ''{'' \<notin> set s \<and> CHR ''}'' \<notin> set s \<and>
     CHR 0x0D \<notin> set s"

subsection \<open>Variations of the environment, and example runs\<close>

text \<open>The environment with the answers to the vetting calls replaced by \<open>g\<close>; the
  answers to the uploads and everything else stay.\<close>

definition with_vet_results :: "(nat \<Rightarrow> pyobj \<Rightarrow> proc) \<Rightarrow> env \<Rightarrow> env" where
  "with_vet_results g e =
     e\<lparr>grpcurl := (\<lambda>c. case c of
                         Grpcurl port (VetDar package_id) \<Rightarrow> g port package_id
                       | Grpcurl port (UploadDar b d) \<Rightarrow> grpcurl e c)\<rparr>"

text \<open>
  An example: the project is at \<^verbatim>\<open>/repo\<close>, the DAR of version 1.0.0 is built, no
  registry file exists yet. \<open>demo_grpcurl up1 up2 vet1 vet2 out\<close> answers the upload
  to app-provider with return code \<open>up1\<close> and output \<open>out\<close>, the upload to app-user
  with \<open>up2\<close>, and the two vetting calls with \<open>vet1\<close> and \<open>vet2\<close>.
\<close>

definition demo_stdout :: string where
  \<open>demo_stdout = ''{"darIds": ["abc123"]}''\<close>

definition demo_grpcurl :: "int \<Rightarrow> int \<Rightarrow> int \<Rightarrow> int \<Rightarrow> string \<Rightarrow> call \<Rightarrow> proc" where
  "demo_grpcurl up1 up2 vet1 vet2 out c =
     (case c of
        Grpcurl port (UploadDar b d) \<Rightarrow>
          \<lparr>returncode = (if port = 3902 then up1 else up2), stdout = out,
           stderr = ''upload refused''\<rparr>
      | Grpcurl port (VetDar p) \<Rightarrow>
          \<lparr>returncode = (if port = 3902 then vet1 else vet2), stdout = [],
           stderr = ''vetting refused''\<rparr>)"

definition demo_env :: "string list \<Rightarrow> (call \<Rightarrow> proc) \<Rightarrow> env" where
  "demo_env args g =
     \<lparr>argv = args, PROJECT_ROOT = ''/repo'', grpcurl = g,
      json_loads =
        (\<lambda>s. if s = demo_stdout then Some (PDict [(''darIds'', PList [PStr ''abc123''])])
              else if s = ''{}'' then Some (PDict [])
              else None),
      yaml_safe_load = (\<lambda>s. None), b64encode = (\<lambda>s. s), py_format = (\<lambda>x. ''object''),
      unreadable = (\<lambda>p. False), unwritable = (\<lambda>p. False),
      partial_write = (\<lambda>p. None)\<rparr>"

definition demo_state :: state where
  "demo_state =
     \<lparr>trace = [],
      files = [''/repo/daml/minimal-token/.daml/dist/minimal-token-1.0.0.dar'' \<mapsto> ''DAR'']\<rparr>"

definition upload_argv :: "string list" where
  "upload_argv = [''scripts/upload_dar.py'', ''1.0.0'']"

definition vet_argv :: "string list" where
  "vet_argv = [''vet_dar.py'', ''abc123'']"

text \<open>
  A second example: the registry file exists and holds version 1.0.0; the command is
  run for version 0.9.0, the authoritative node answers with two identifiers, and the
  vetting on app-user fails.
\<close>

text \<open>The registry file that holds version 1.0.0 with package id abc123.\<close>

definition registry_text_100 :: string where
  "registry_text_100 = ''// MinimalToken Package Configuration\<newline>// This file is auto-generated by upload_dar.py\<newline>\<newline>export const MINIMAL_TOKEN_PACKAGE_CONFIG = {\<newline>  // Current active version\<newline>  currentVersion: '1.0.0',\<newline>  currentPackageId: 'abc123',\<newline>\<newline>  // All deployed versions (newest first)\<newline>  versions: {\<newline>    '1.0.0': 'abc123'\<newline>  }\<newline>};\<newline>\<newline>export default MINIMAL_TOKEN_PACKAGE_CONFIG;\<newline>''"

text \<open>
  The registry file after a further update for version 0.9.0 with package id old999;
  the file written for version \<^verbatim>\<open>1.0.0}\<close>; a package id that holds quotes, and the
  file written for it.
\<close>

definition registry_text_090 :: string where
  "registry_text_090 = ''// MinimalToken Package Configuration\<newline>// This file is auto-generated by upload_dar.py\<newline>\<newline>export const MINIMAL_TOKEN_PACKAGE_CONFIG = {\<newline>  // Current active version\<newline>  currentVersion: '0.9.0',\<newline>  currentPackageId: 'old999',\<newline>\<newline>  // All deployed versions (newest first)\<newline>  versions: {\<newline>    '1.0.0': 'abc123',\<newline>    '0.9.0': 'old999'\<newline>  }\<newline>};\<newline>\<newline>export default MINIMAL_TOKEN_PACKAGE_CONFIG;\<newline>''"

definition registry_text_brace :: string where
  "registry_text_brace = ''// MinimalToken Package Configuration\<newline>// This file is auto-generated by upload_dar.py\<newline>\<newline>export const MINIMAL_TOKEN_PACKAGE_CONFIG = {\<newline>  // Current active version\<newline>  currentVersion: '1.0.0}',\<newline>  currentPackageId: 'abc123',\<newline>\<newline>  // All deployed versions (newest first)\<newline>  versions: {\<newline>    '1.0.0}': 'abc123'\<newline>  }\<newline>};\<newline>\<newline>export default MINIMAL_TOKEN_PACKAGE_CONFIG;\<newline>''"

definition evil_id :: string where
  "evil_id = ''x', '1.0.0': 'evil''"

definition registry_text_evil :: string where
  "registry_text_evil = ''// MinimalToken Package Configuration\<newline>// This file is auto-generated by upload_dar.py\<newline>\<newline>export const MINIMAL_TOKEN_PACKAGE_CONFIG = {\<newline>  // Current active version\<newline>  currentVersion: '0.9.0',\<newline>  currentPackageId: 'x', '1.0.0': 'evil',\<newline>\<newline>  // All deployed versions (newest first)\<newline>  versions: {\<newline>    '1.0.0': 'abc123',\<newline>    '0.9.0': 'x', '1.0.0': 'evil'\<newline>  }\<newline>};\<newline>\<newline>export default MINIMAL_TOKEN_PACKAGE_CONFIG;\<newline>''"


definition registry_stdout :: string where
  \<open>registry_stdout = ''{"darIds": ["old999", "zzz"]}''\<close>

definition registry_env :: env where
  "registry_env =
     \<lparr>argv = [''scripts/upload_dar.py'', ''0.9.0''], PROJECT_ROOT = ''/repo'',
      grpcurl = demo_grpcurl 0 0 0 1 registry_stdout,
      json_loads =
        (\<lambda>s. if s = registry_stdout
              then Some (PDict [(''darIds'', PList [PStr ''old999'', PStr ''zzz''])])
              else None),
      yaml_safe_load = (\<lambda>s. None), b64encode = (\<lambda>s. s), py_format = (\<lambda>x. ''object''),
      unreadable = (\<lambda>p. False), unwritable = (\<lambda>p. False),
      partial_write = (\<lambda>p. None)\<rparr>"

definition registry_state :: state where
  "registry_state =
     \<lparr>trace = [],
      files =
        [''/repo/daml/minimal-token/.daml/dist/minimal-token-0.9.0.dar'' \<mapsto> ''DAR'',
         ''/repo/src/config/packageConfig.js'' \<mapsto> registry_text_100]\<rparr>"

text \<open>
  A third example: the command is run for the version \<^verbatim>\<open>1.0.0}\<close>, whose DAR is
  built; no registry file exists yet.
\<close>

definition brace_argv :: "string list" where
  "brace_argv = [''scripts/upload_dar.py'', ''1.0.0}'']"

definition brace_state :: state where
  "brace_state =
     \<lparr>trace = [],
      files = [''/repo/daml/minimal-token/.daml/dist/minimal-token-1.0.0}.dar'' \<mapsto> ''DAR'']\<rparr>"


section \<open>Properties of a run\<close>

subsection \<open>What the steps do to the state\<close>

lemma vet_dar_trace:
  "vet_dar e package_id st =
     st\<lparr>trace := trace st @
        [Call (Grpcurl 3902 (VetDar package_id))] @
        (if returncode (grpcurl e (Grpcurl 3902 (VetDar package_id))) \<noteq> 0
         then [Warning ''app-provider'' (stderr (grpcurl e (Grpcurl 3902 (VetDar package_id))))]
         else []) @
        [Call (Grpcurl 2902 (VetDar package_id))] @
        (if returncode (grpcurl e (Grpcurl 2902 (VetDar package_id))) \<noteq> 0
         then [Warning ''app-user'' (stderr (grpcurl e (Grpcurl 2902 (VetDar package_id))))]
         else [])\<rparr>"
  by (simp add: vet_dar_def subprocess_run_def warn_def Let_def)

lemma upload_dar_cases:
  assumes "files st dar_path = Some dar_bytes"
  shows "upload_dar e dar_path version st =
     (let request = upload_request e dar_bytes version;
          st1 = st\<lparr>trace := trace st @ [Call (Grpcurl 3902 request)]\<rparr>;
          st2 = st\<lparr>trace := trace st @ [Call (Grpcurl 3902 request), Call (Grpcurl 2902 request)]\<rparr>
      in case provider_package_id e (grpcurl e (Grpcurl 3902 request)) of
           Inl err \<Rightarrow> (Inl err, st1)
         | Inr package_id \<Rightarrow>
             if returncode (grpcurl e (Grpcurl 2902 request)) \<noteq> 0
             then (Inl DistributionError, st2)
             else (Inr package_id, vet_dar e package_id st2))"
  using assms
  by (simp add: upload_dar_def subprocess_run_def Let_def split: sum.splits)

lemma update_package_config_ok:
  assumes "\<not> unreadable e (config_path e)" and "\<not> unwritable e (config_path e)"
  shows "update_package_config e package_id version st =
           (Inr (),
            st\<lparr>files := (files st)(config_path e \<mapsto>
                 rewritten_content
                   (case files st (config_path e) of
                      Some text \<Rightarrow> universal_newlines text | None \<Rightarrow> default_content)
                   (py_str e package_id) version)\<rparr>)"
  using assms
  by (simp add: update_package_config_def read_config_def Let_def split: option.splits)

lemma vet_dar_files: "files (vet_dar e package_id st) = files st"
  by (simp add: vet_dar_trace)

lemma with_vet_results_simps:
  "argv (with_vet_results g e) = argv e"
  "PROJECT_ROOT (with_vet_results g e) = PROJECT_ROOT e"
  "json_loads (with_vet_results g e) = json_loads e"
  "yaml_safe_load (with_vet_results g e) = yaml_safe_load e"
  "b64encode (with_vet_results g e) = b64encode e"
  "py_format (with_vet_results g e) = py_format e"
  "unreadable (with_vet_results g e) = unreadable e"
  "unwritable (with_vet_results g e) = unwritable e"
  "partial_write (with_vet_results g e) = partial_write e"
  "grpcurl (with_vet_results g e) (Grpcurl port (UploadDar b d)) = grpcurl e (Grpcurl port (UploadDar b d))"
  "grpcurl (with_vet_results g e) (Grpcurl port (VetDar p)) = g port p"
  by (simp_all add: with_vet_results_def)

lemma with_vet_results_paths:
  "DAML_YAML_PATH (with_vet_results g e) = DAML_YAML_PATH e"
  "get_dar_path (with_vet_results g e) version = get_dar_path e version"
  "config_path (with_vet_results g e) = config_path e"
  "upload_request (with_vet_results g e) dar_bytes version = upload_request e dar_bytes version"
  by (simp_all add: get_dar_path_def config_path_def DAML_YAML_PATH_def DAML_PROJECT_PATH_def
      upload_request_def with_vet_results_simps)

lemma with_vet_results_py_str: "py_str (with_vet_results g e) x = py_str e x"
  by (simp add: py_str_def with_vet_results_simps split: pyobj.splits)

lemma with_vet_results_resolve:
  "resolve_version (with_vet_results g e) st = resolve_version e st"
  by (simp add: resolve_version_def read_version_from_daml_yaml_def with_vet_results_paths
      with_vet_results_py_str with_vet_results_simps split: option.splits sum.splits)

lemma with_vet_results_provider:
  "provider_package_id (with_vet_results g e) r = provider_package_id e r"
  by (simp add: provider_package_id_def with_vet_results_simps split: option.splits sum.splits)

lemmas with_vet_results_pure =
  with_vet_results_paths with_vet_results_py_str with_vet_results_resolve
  with_vet_results_provider

lemma update_package_config_outcome:
  assumes "files st' = files st"
  shows "fst (update_package_config (with_vet_results g e) package_id version st') =
           fst (update_package_config e package_id version st)"
    and "files (snd (update_package_config (with_vet_results g e) package_id version st')) =
           files (snd (update_package_config e package_id version st))"
  using assms
  by (simp_all add: update_package_config_def read_config_def Let_def with_vet_results_pure
      with_vet_results_simps split: option.splits)

lemma with_vet_results_upload:
  "grpcurl (with_vet_results g e) (Grpcurl port (upload_request e' dar_bytes version)) =
     grpcurl e (Grpcurl port (upload_request e' dar_bytes version))"
  by (simp add: upload_request_def with_vet_results_simps)

lemma upload_dar_main_cases:
  assumes "resolve_version e st = Inr version"
    and "files st (get_dar_path e version) = Some dar_bytes"
  shows "upload_dar_main e st =
     (let request = upload_request e dar_bytes version;
          st1 = st\<lparr>trace := trace st @ [Call (Grpcurl 3902 request)]\<rparr>;
          st2 = st\<lparr>trace := trace st @ [Call (Grpcurl 3902 request), Call (Grpcurl 2902 request)]\<rparr>
      in case provider_package_id e (grpcurl e (Grpcurl 3902 request)) of
           Inl err \<Rightarrow> (Inl err, st1)
         | Inr package_id \<Rightarrow>
             if returncode (grpcurl e (Grpcurl 2902 request)) \<noteq> 0
             then (Inl DistributionError, st2)
             else update_package_config e package_id version (vet_dar e package_id st2))"
  using assms
  by (simp add: upload_dar_main_def upload_dar_cases Let_def split: sum.splits)

lemma upload_dar_main_vet_independent:
  "fst (upload_dar_main (with_vet_results g e) st) = fst (upload_dar_main e st) \<and>
   files (snd (upload_dar_main (with_vet_results g e) st)) = files (snd (upload_dar_main e st))"
proof (cases "resolve_version e st")
  case (Inl err)
  then show ?thesis by (simp add: upload_dar_main_def with_vet_results_pure)
next
  case (Inr version)
  show ?thesis
  proof (cases "files st (get_dar_path e version)")
    case None
    with Inr show ?thesis
      by (simp add: upload_dar_main_def with_vet_results_pure upload_dar_def)
  next
    case (Some dar_bytes)
    let ?e' = "with_vet_results g e"
    have r': "resolve_version ?e' st = Inr version"
      and f': "files st (get_dar_path ?e' version) = Some dar_bytes"
      using Inr Some by (simp_all add: with_vet_results_pure)
    let ?req = "upload_request e dar_bytes version"
    show ?thesis
    proof (cases "provider_package_id e (grpcurl e (Grpcurl 3902 ?req))")
      case (Inl err)
      then show ?thesis
        unfolding upload_dar_main_cases [OF Inr Some] upload_dar_main_cases [OF r' f']
        by (simp add: Let_def with_vet_results_pure with_vet_results_upload)
    next
      case pid: (Inr package_id)
      show ?thesis
      proof (cases "returncode (grpcurl e (Grpcurl 2902 ?req)) = 0")
        case False
        with pid show ?thesis
          unfolding upload_dar_main_cases [OF Inr Some] upload_dar_main_cases [OF r' f']
          by (simp add: Let_def with_vet_results_pure with_vet_results_upload)
      next
        case True
        let ?st2 = "st\<lparr>trace := trace st @ [Call (Grpcurl 3902 ?req), Call (Grpcurl 2902 ?req)]\<rparr>"
        have l: "upload_dar_main ?e' st =
                   update_package_config ?e' package_id version (vet_dar ?e' package_id ?st2)"
          unfolding upload_dar_main_cases [OF r' f'] using pid True
          by (simp add: Let_def with_vet_results_pure with_vet_results_upload)
        have r: "upload_dar_main e st =
                   update_package_config e package_id version (vet_dar e package_id ?st2)"
          unfolding upload_dar_main_cases [OF Inr Some] using pid True
          by (simp add: Let_def)
        have "files (vet_dar ?e' package_id ?st2) = files (vet_dar e package_id ?st2)"
          by (simp add: vet_dar_files)
        from update_package_config_outcome [OF this] show ?thesis
          unfolding l r by simp
      qed
    qed
  qed
qed


subsection \<open>The example environment\<close>

lemma demo_resolve: "resolve_version (demo_env upload_argv g) st = Inr ''1.0.0''"
  by (simp add: resolve_version_def demo_env_def upload_argv_def)

lemma demo_dar:
  "files demo_state (get_dar_path (demo_env a g) ''1.0.0'') = Some ''DAR''"
  by (simp add: get_dar_path_def DAML_PROJECT_PATH_def path_join_def demo_env_def demo_state_def)

lemma demo_request:
  "upload_request (demo_env a g) ''DAR'' ''1.0.0'' =
     UploadDar ''DAR'' ''MinimalToken v1.0.0 - ProposeBurn/AcceptBurn pattern''"
  by (simp add: upload_request_def demo_env_def)

lemma demo_grpcurl_simps:
  "grpcurl (demo_env a g) = g"
  "demo_grpcurl up1 up2 vet1 vet2 out (Grpcurl 3902 (UploadDar b d)) =
     \<lparr>returncode = up1, stdout = out, stderr = ''upload refused''\<rparr>"
  "demo_grpcurl up1 up2 vet1 vet2 out (Grpcurl 2902 (UploadDar b d)) =
     \<lparr>returncode = up2, stdout = out, stderr = ''upload refused''\<rparr>"
  "demo_grpcurl up1 up2 vet1 vet2 out (Grpcurl 3902 (VetDar p)) =
     \<lparr>returncode = vet1, stdout = [], stderr = ''vetting refused''\<rparr>"
  "demo_grpcurl up1 up2 vet1 vet2 out (Grpcurl 2902 (VetDar p)) =
     \<lparr>returncode = vet2, stdout = [], stderr = ''vetting refused''\<rparr>"
  by (simp_all add: demo_env_def demo_grpcurl_def)

lemma demo_package_id:
  "provider_package_id (demo_env a g) \<lparr>returncode = 0, stdout = demo_stdout, stderr = x\<rparr> =
     Inr (PStr ''abc123'')"
  by (simp add: provider_package_id_def demo_env_def extract_package_id_def)

lemma demo_no_package_id:
  "provider_package_id (demo_env a g) \<lparr>returncode = 0, stdout = ''{}'', stderr = x\<rparr> =
     Inl DistributionError"
  by (simp add: provider_package_id_def demo_env_def extract_package_id_def demo_stdout_def)

lemma demo_io:
  "\<not> unreadable (demo_env a g) p" "\<not> unwritable (demo_env a g) p"
  by (simp_all add: demo_env_def)

lemmas demo_simps = demo_resolve demo_dar demo_request demo_grpcurl_simps demo_package_id
  demo_no_package_id demo_io

subsection \<open>Upload failures\<close>

text \<open>
  Claim C2. When the upload to the authoritative node (app-provider) fails, that is
  returns a non-zero status, the run ends with \<open>DistributionError\<close> right there: the
  final state is the initial one with that single upload call added to the trace. So
  the files, the registry among them, are as before, and no vetting call and no other
  call is made.
\<close>

theorem provider_upload_failure_aborts:
  assumes "resolve_version e st = Inr version"
    and "files st (get_dar_path e version) = Some dar_bytes"
    and "returncode (grpcurl e (Grpcurl 3902 (upload_request e dar_bytes version))) \<noteq> 0"
  shows "upload_dar_main e st =
           (Inl DistributionError,
            st\<lparr>trace := trace st @ [Call (Grpcurl 3902 (upload_request e dar_bytes version))]\<rparr>)"
  unfolding upload_dar_main_cases [OF assms(1,2)] using assms(3)
  by (simp add: Let_def provider_package_id_def)

theorem provider_upload_failure_aborts_witness:
  "resolve_version (demo_env upload_argv (demo_grpcurl 1 0 0 0 [])) demo_state = Inr ''1.0.0'' \<and>
   files demo_state (get_dar_path (demo_env upload_argv (demo_grpcurl 1 0 0 0 [])) ''1.0.0'') =
     Some ''DAR'' \<and>
   returncode (grpcurl (demo_env upload_argv (demo_grpcurl 1 0 0 0 []))
     (Grpcurl 3902 (upload_request (demo_env upload_argv (demo_grpcurl 1 0 0 0 [])) ''DAR'' ''1.0.0'')))
     \<noteq> 0 \<and>
   upload_dar_main (demo_env upload_argv (demo_grpcurl 1 0 0 0 [])) demo_state =
     (Inl DistributionError,
      demo_state\<lparr>trace :=
        [Call (Grpcurl 3902
           (UploadDar ''DAR'' ''MinimalToken v1.0.0 - ProposeBurn/AcceptBurn pattern''))]\<rparr>)"
  using provider_upload_failure_aborts
    [of "demo_env upload_argv (demo_grpcurl 1 0 0 0 [])" demo_state "''1.0.0''" "''DAR''"]
  by (simp add: demo_simps) (simp add: demo_state_def)

text \<open>
  Claim C1. When the upload to the authoritative node succeeds and the upload to the
  secondary node (app-user) fails, the run ends with an error, the only change of the
  state is the trace, which gains upload calls only: the files are as before and no
  vetting call is made to either node. Whenever the secondary upload was made, the
  error is \<open>DistributionError\<close>.
\<close>

theorem user_upload_failure_aborts:
  assumes "resolve_version e st = Inr version"
    and "files st (get_dar_path e version) = Some dar_bytes"
    and "returncode (grpcurl e (Grpcurl 3902 (upload_request e dar_bytes version))) = 0"
    and "returncode (grpcurl e (Grpcurl 2902 (upload_request e dar_bytes version))) \<noteq> 0"
  shows "\<exists>err evs.
           upload_dar_main e st = (Inl err, st\<lparr>trace := trace st @ evs\<rparr>) \<and>
           set evs \<subseteq> {Call (Grpcurl 3902 (upload_request e dar_bytes version)),
                      Call (Grpcurl 2902 (upload_request e dar_bytes version))} \<and>
           (Call (Grpcurl 2902 (upload_request e dar_bytes version)) \<in> set evs
              \<longrightarrow> err = DistributionError)"
proof (cases "provider_package_id e (grpcurl e (Grpcurl 3902 (upload_request e dar_bytes version)))")
  case (Inl err)
  with assms have "upload_dar_main e st =
      (Inl err, st\<lparr>trace := trace st @ [Call (Grpcurl 3902 (upload_request e dar_bytes version))]\<rparr>)"
    by (simp add: upload_dar_main_cases Let_def)
  then show ?thesis by (intro exI[of _ err] exI[of _ "[Call (Grpcurl 3902 (upload_request e dar_bytes version))]"]) simp
next
  case (Inr package_id)
  with assms have "upload_dar_main e st =
      (Inl DistributionError,
       st\<lparr>trace := trace st @ [Call (Grpcurl 3902 (upload_request e dar_bytes version)),
                                Call (Grpcurl 2902 (upload_request e dar_bytes version))]\<rparr>)"
    by (simp add: upload_dar_main_cases Let_def)
  then show ?thesis by (intro exI[of _ DistributionError] exI[of _ "[Call (Grpcurl 3902 (upload_request e dar_bytes version)),
                                Call (Grpcurl 2902 (upload_request e dar_bytes version))]"]) simp
qed


theorem user_upload_failure_aborts_witness:
  "\<exists>evs.
     upload_dar_main (demo_env upload_argv (demo_grpcurl 0 1 0 0 demo_stdout)) demo_state =
       (Inl DistributionError, demo_state\<lparr>trace := evs\<rparr>) \<and>
     set evs \<subseteq>
       {Call (Grpcurl 3902 (UploadDar ''DAR'' ''MinimalToken v1.0.0 - ProposeBurn/AcceptBurn pattern'')),
        Call (Grpcurl 2902 (UploadDar ''DAR'' ''MinimalToken v1.0.0 - ProposeBurn/AcceptBurn pattern''))}"
proof -
  let ?e = "demo_env upload_argv (demo_grpcurl 0 1 0 0 demo_stdout)"
  have main: "upload_dar_main ?e demo_state =
      (Inl DistributionError,
       demo_state\<lparr>trace :=
         [Call (Grpcurl 3902 (UploadDar ''DAR'' ''MinimalToken v1.0.0 - ProposeBurn/AcceptBurn pattern'')),
          Call (Grpcurl 2902 (UploadDar ''DAR'' ''MinimalToken v1.0.0 - ProposeBurn/AcceptBurn pattern''))]\<rparr>)"
    by (simp add: upload_dar_main_cases [of ?e demo_state "''1.0.0''" "''DAR''"] demo_simps Let_def)
      (simp add: demo_state_def)
  from user_upload_failure_aborts [of ?e demo_state "''1.0.0''" "''DAR''"]
  obtain err evs where
    "upload_dar_main ?e demo_state = (Inl err, demo_state\<lparr>trace := trace demo_state @ evs\<rparr>)"
    "set evs \<subseteq>
       {Call (Grpcurl 3902 (UploadDar ''DAR'' ''MinimalToken v1.0.0 - ProposeBurn/AcceptBurn pattern'')),
        Call (Grpcurl 2902 (UploadDar ''DAR'' ''MinimalToken v1.0.0 - ProposeBurn/AcceptBurn pattern''))}"
    by (auto simp: demo_simps)
  with main show ?thesis
    by (intro exI [of _ "trace demo_state @ evs"]) (simp add: demo_state_def)
qed

subsection \<open>The exit status\<close>

lemma upload_dar_errors:
  "upload_dar e dar_path version st = (Inl err, st') \<Longrightarrow>
     err \<in> {ArtifactNotFoundError, DistributionError} \<or> (\<exists>x. err = Uncaught x)"
  by (auto simp: upload_dar_def subprocess_run_def provider_package_id_def Let_def
      split: option.splits sum.splits if_splits)

lemma resolve_version_errors:
  "resolve_version e st = Inl err \<Longrightarrow> err \<in> {UsageError, ConfigError}"
  by (auto simp: resolve_version_def read_version_from_daml_yaml_def
      split: option.splits sum.splits if_splits)

lemma update_package_config_errors:
  "update_package_config e package_id version st = (Inl err, st') \<Longrightarrow> err = RegistryWriteError"
  by (auto simp: update_package_config_def read_config_def Let_def
      split: option.splits sum.splits if_splits)

lemma upload_dar_main_errors:
  assumes "fst (upload_dar_main e st) = Inl err"
  shows "err \<in> {UsageError, ConfigError, ArtifactNotFoundError, DistributionError,
                RegistryWriteError} \<or> (\<exists>x. err = Uncaught x)"
proof (cases "resolve_version e st")
  case (Inl a)
  with assms resolve_version_errors [of e st a] show ?thesis
    by (auto simp: upload_dar_main_def)
next
  case (Inr version)
  obtain r st1 where u: "upload_dar e (get_dar_path e version) version st = (r, st1)"
    by (cases "upload_dar e (get_dar_path e version) version st")
  show ?thesis
  proof (cases r)
    case (Inl a)
    with assms Inr u upload_dar_errors [of e _ version st a st1] show ?thesis
      by (auto simp: upload_dar_main_def)
  next
    case pid: (Inr package_id)
    obtain r2 st2 where c: "update_package_config e package_id version st1 = (r2, st2)"
      by (cases "update_package_config e package_id version st1")
    with assms Inr u pid update_package_config_errors [of e package_id version st1 err st2]
    show ?thesis
      by (auto simp: upload_dar_main_def)
  qed
qed

lemma vet_dar_main_status:
  "fst (vet_dar_main e st) =
     (if length (argv e) \<noteq> 2 then Inl UsageError
      else if returncode (grpcurl e (Grpcurl 3902 (VetDar (PStr (argv e ! 1))))) = 0 \<and>
              returncode (grpcurl e (Grpcurl 2902 (VetDar (PStr (argv e ! 1))))) = 0
      then Inr () else Inl VettingIncomplete)"
  by (simp add: vet_dar_main_def vet_dar_on_participant_def subprocess_run_def Let_def)

lemma demo_argv: "argv (demo_env a g) = a" by (simp add: demo_env_def)

text \<open>
  Claim C4, as the code has it. The claim holds for the upload command and fails for
  the vetting command, \<^verbatim>\<open>vet_dar.py\<close>, which the claim covers as well.
  \<^item> \<^verbatim>\<open>scripts/upload_dar.py\<close> exits with a non-zero status exactly when the run ended
    with a fatal error: the usage error, \<open>ConfigError\<close>, \<open>ArtifactNotFoundError\<close>,
    \<open>DistributionError\<close>, \<open>RegistryWriteError\<close>, or an exception raised while the
    response of the authoritative upload is decoded.
  \<^item> Its exit status is the same whatever the vetting calls answer.
  \<^item> \<^verbatim>\<open>vet_dar.py\<close> exits with a non-zero status exactly when it is not given one
    argument or one of its two vetting calls fails.
\<close>

theorem exit_status_of_the_commands:
  "(exit_status (fst (upload_dar_main e st)) \<noteq> 0 \<longleftrightarrow>
      (\<exists>err. fst (upload_dar_main e st) = Inl err \<and>
         (err \<in> {UsageError, ConfigError, ArtifactNotFoundError, DistributionError,
                  RegistryWriteError} \<or> (\<exists>x. err = Uncaught x)))) \<and>
   exit_status (fst (upload_dar_main (with_vet_results g e) st)) =
     exit_status (fst (upload_dar_main e st)) \<and>
   (exit_status (fst (vet_dar_main e st)) \<noteq> 0 \<longleftrightarrow>
      length (argv e) \<noteq> 2 \<or>
      returncode (grpcurl e (Grpcurl 3902 (VetDar (PStr (argv e ! 1))))) \<noteq> 0 \<or>
      returncode (grpcurl e (Grpcurl 2902 (VetDar (PStr (argv e ! 1))))) \<noteq> 0)"
proof (intro conjI)
  show "exit_status (fst (upload_dar_main e st)) \<noteq> 0 \<longleftrightarrow>
      (\<exists>err. fst (upload_dar_main e st) = Inl err \<and>
         (err \<in> {UsageError, ConfigError, ArtifactNotFoundError, DistributionError,
                  RegistryWriteError} \<or> (\<exists>x. err = Uncaught x)))"
    using upload_dar_main_errors [of e st]
    by (cases "fst (upload_dar_main e st)") (simp_all add: exit_status_def)
  show "exit_status (fst (upload_dar_main (with_vet_results g e) st)) =
     exit_status (fst (upload_dar_main e st))"
    using upload_dar_main_vet_independent [of g e st] by simp
  show "exit_status (fst (vet_dar_main e st)) \<noteq> 0 \<longleftrightarrow>
      length (argv e) \<noteq> 2 \<or>
      returncode (grpcurl e (Grpcurl 3902 (VetDar (PStr (argv e ! 1))))) \<noteq> 0 \<or>
      returncode (grpcurl e (Grpcurl 2902 (VetDar (PStr (argv e ! 1))))) \<noteq> 0"
    by (simp add: vet_dar_main_status exit_status_def)
qed

theorem exit_status_of_the_commands_witness:
  "exit_status (fst (upload_dar_main
      (with_vet_results (\<lambda>port p. \<lparr>returncode = 1, stdout = [], stderr = ''vetting refused''\<rparr>)
         (demo_env upload_argv (demo_grpcurl 0 0 0 0 demo_stdout))) demo_state)) = 0 \<and>
   exit_status (fst (upload_dar_main (demo_env upload_argv (demo_grpcurl 0 0 0 0 demo_stdout))
      demo_state)) = 0 \<and>
   exit_status (fst (vet_dar_main (demo_env vet_argv (demo_grpcurl 0 0 0 1 [])) demo_state)) \<noteq> 0"
proof -
  let ?e = "demo_env upload_argv (demo_grpcurl 0 0 0 0 demo_stdout)"
  have "upload_dar_main ?e demo_state =
          update_package_config ?e (PStr ''abc123'') ''1.0.0''
            (vet_dar ?e (PStr ''abc123'')
              (demo_state\<lparr>trace := trace demo_state @
                 [Call (Grpcurl 3902 (upload_request ?e ''DAR'' ''1.0.0'')),
                  Call (Grpcurl 2902 (upload_request ?e ''DAR'' ''1.0.0''))]\<rparr>))"
    by (simp add: upload_dar_main_cases [of ?e demo_state "''1.0.0''" "''DAR''"] demo_simps Let_def)
  then have ok: "exit_status (fst (upload_dar_main ?e demo_state)) = 0"
    by (simp add: update_package_config_ok demo_simps exit_status_def)
  from exit_status_of_the_commands
    [where e = ?e and st = demo_state
       and g = "\<lambda>port p. \<lparr>returncode = 1, stdout = [], stderr = ''vetting refused''\<rparr>"]
  have "exit_status (fst (upload_dar_main
      (with_vet_results (\<lambda>port p. \<lparr>returncode = 1, stdout = [], stderr = ''vetting refused''\<rparr>) ?e)
        demo_state)) = exit_status (fst (upload_dar_main ?e demo_state))"
    by blast
  moreover
  from exit_status_of_the_commands
    [where e = "demo_env vet_argv (demo_grpcurl 0 0 0 1 [])" and st = demo_state]
  have "exit_status (fst (vet_dar_main (demo_env vet_argv (demo_grpcurl 0 0 0 1 [])) demo_state)) \<noteq> 0"
    by (simp add: demo_simps demo_argv vet_argv_def)
  ultimately show ?thesis using ok by simp
qed

text \<open>
  Claim C4 as stated fails on \<^verbatim>\<open>vet_dar.py\<close>: with one argument and both vetting
  calls succeeding the command returns and the status is 0; when only the vetting on
  app-user fails, both calls are still made, no fatal error of the list occurs, and the
  command ends with its final \<^verbatim>\<open>sys.exit(1)\<close>.
\<close>

theorem vet_command_exit_status_counterexample:
  "fst (vet_dar_main (demo_env vet_argv (demo_grpcurl 0 0 0 0 [])) demo_state) = Inr () \<and>
   exit_status (fst (vet_dar_main (demo_env vet_argv (demo_grpcurl 0 0 0 0 [])) demo_state)) = 0 \<and>
   fst (vet_dar_main (demo_env vet_argv (demo_grpcurl 0 0 0 1 [])) demo_state) =
     Inl VettingIncomplete \<and>
   exit_status (fst (vet_dar_main (demo_env vet_argv (demo_grpcurl 0 0 0 1 [])) demo_state)) = 1 \<and>
   snd (vet_dar_main (demo_env vet_argv (demo_grpcurl 0 0 0 1 [])) demo_state) =
     demo_state\<lparr>trace :=
       [Call (Grpcurl 3902 (VetDar (PStr ''abc123''))),
        Call (Grpcurl 2902 (VetDar (PStr ''abc123''))),
        Warning ''app-user'' ''vetting refused'']\<rparr>"
  by (simp add: vet_dar_main_def vet_dar_on_participant_def subprocess_run_def warn_def Let_def
      demo_simps demo_argv vet_argv_def exit_status_def demo_state_def)


subsection \<open>The package id\<close>

lemma extract_package_id_first:
  "map_of (rev kvs) ''darIds'' = Some (PList (x # xs)) \<Longrightarrow>
     extract_package_id (PDict kvs) = Inr x"
  by (simp add: extract_package_id_def)

lemma extract_package_id_none:
  "map_of (rev kvs) ''darIds'' \<in> {None, Some PNone, Some (PList [])} \<Longrightarrow>
     extract_package_id (PDict kvs) = Inr PNone"
  by (auto simp: extract_package_id_def)

text \<open>
  Claim C6, as the code has it. After the upload to the authoritative node,
  \<^item> the package id is defined exactly when the upload returned status 0, its output
    decodes, and the decoded response yields a package id that counts as true;
  \<^item> for a response whose \<^verbatim>\<open>darIds\<close> is a non-empty list, the id taken is the first
    element of the list;
  \<^item> when the upload returned status 0 and the response is an object without
    identifier (\<^verbatim>\<open>darIds\<close> absent, null or the empty list), the result is
    \<open>DistributionError\<close>;
  \<^item> and an error at this point ends the run, after the single upload call.
\<close>

theorem canonical_identifier_defined:
  "(provider_package_id e r = Inr package_id \<longleftrightarrow>
      returncode r = 0 \<and>
      (\<exists>resp. json_loads e (stdout r) = Some resp \<and>
              extract_package_id resp = Inr package_id \<and> truthy package_id)) \<and>
   (map_of (rev kvs) ''darIds'' = Some (PList (x # xs)) \<longrightarrow>
      extract_package_id (PDict kvs) = Inr x) \<and>
   (returncode r = 0 \<and> json_loads e (stdout r) = Some (PDict kvs) \<and>
    map_of (rev kvs) ''darIds'' \<in> {None, Some PNone, Some (PList [])} \<longrightarrow>
      provider_package_id e r = Inl DistributionError) \<and>
   (resolve_version e st = Inr version \<and>
    files st (get_dar_path e version) = Some dar_bytes \<and>
    provider_package_id e (grpcurl e (Grpcurl 3902 (upload_request e dar_bytes version))) = Inl err \<longrightarrow>
      upload_dar_main e st =
        (Inl err,
         st\<lparr>trace := trace st @ [Call (Grpcurl 3902 (upload_request e dar_bytes version))]\<rparr>))"
proof (intro conjI impI)
  show "provider_package_id e r = Inr package_id \<longleftrightarrow>
      returncode r = 0 \<and>
      (\<exists>resp. json_loads e (stdout r) = Some resp \<and>
              extract_package_id resp = Inr package_id \<and> truthy package_id)"
    by (auto simp: provider_package_id_def split: option.splits sum.splits)
next
  assume "map_of (rev kvs) ''darIds'' = Some (PList (x # xs))"
  then show "extract_package_id (PDict kvs) = Inr x"
    by (rule extract_package_id_first)
next
  assume "returncode r = 0 \<and> json_loads e (stdout r) = Some (PDict kvs) \<and>
    map_of (rev kvs) ''darIds'' \<in> {None, Some PNone, Some (PList [])}"
  then show "provider_package_id e r = Inl DistributionError"
    using extract_package_id_none [of kvs] by (simp add: provider_package_id_def)
next
  assume "resolve_version e st = Inr version \<and>
    files st (get_dar_path e version) = Some dar_bytes \<and>
    provider_package_id e (grpcurl e (Grpcurl 3902 (upload_request e dar_bytes version))) = Inl err"
  then show "upload_dar_main e st =
        (Inl err,
         st\<lparr>trace := trace st @ [Call (Grpcurl 3902 (upload_request e dar_bytes version))]\<rparr>)"
    by (simp add: upload_dar_main_cases Let_def)
qed

theorem canonical_identifier_defined_witness:
  "provider_package_id (demo_env upload_argv (demo_grpcurl 0 0 0 0 demo_stdout))
     \<lparr>returncode = 0, stdout = demo_stdout, stderr = []\<rparr> = Inr (PStr ''abc123'') \<and>
   extract_package_id (PDict [(''darIds'', PList [PStr ''abc123'', PStr ''def456''])]) =
     Inr (PStr ''abc123'') \<and>
   provider_package_id (demo_env upload_argv (demo_grpcurl 0 0 0 0 ''{}''))
     \<lparr>returncode = 0, stdout = ''{}'', stderr = []\<rparr> = Inl DistributionError \<and>
   upload_dar_main (demo_env upload_argv (demo_grpcurl 0 0 0 0 ''{}'')) demo_state =
     (Inl DistributionError,
      demo_state\<lparr>trace :=
        [Call (Grpcurl 3902
           (UploadDar ''DAR'' ''MinimalToken v1.0.0 - ProposeBurn/AcceptBurn pattern''))]\<rparr>)"
proof -
  let ?e = "demo_env upload_argv (demo_grpcurl 0 0 0 0 ''{}'')"
  let ?e1 = "demo_env upload_argv (demo_grpcurl 0 0 0 0 demo_stdout)"
  note t = canonical_identifier_defined
    [where e = ?e and r = "\<lparr>returncode = 0, stdout = ''{}'', stderr = []\<rparr>" and kvs = "[]"
       and st = demo_state and version = "''1.0.0''" and dar_bytes = "''DAR''"
       and err = DistributionError]
  have a: "provider_package_id ?e \<lparr>returncode = 0, stdout = ''{}'', stderr = []\<rparr> =
             Inl DistributionError"
    using t by (simp add: demo_env_def demo_stdout_def)
  have b: "upload_dar_main ?e demo_state =
     (Inl DistributionError,
      demo_state\<lparr>trace :=
        [Call (Grpcurl 3902
           (UploadDar ''DAR'' ''MinimalToken v1.0.0 - ProposeBurn/AcceptBurn pattern''))]\<rparr>)"
    using t by (simp add: demo_simps) (simp add: demo_state_def)
  note t1 = canonical_identifier_defined
    [where e = ?e1 and r = "\<lparr>returncode = 0, stdout = demo_stdout, stderr = []\<rparr>"
       and package_id = "PStr ''abc123''"
       and kvs = "[(''darIds'', PList [PStr ''abc123'', PStr ''def456''])]"
       and x = "PStr ''abc123''" and xs = "[PStr ''def456'']"]
  have c: "extract_package_id (PDict [(''darIds'', PList [PStr ''abc123'', PStr ''def456''])]) =
     Inr (PStr ''abc123'')"
    using t1 by simp
  have d: "provider_package_id ?e1 \<lparr>returncode = 0, stdout = demo_stdout, stderr = []\<rparr> =
     Inr (PStr ''abc123'')"
    using t1 by (simp add: demo_env_def extract_package_id_def)
  from a b c d show ?thesis by simp
qed

text \<open>
  Claim C6 as stated fails where the upload succeeds and returns no identifier: the
  upload to app-provider returns status 0 with the response \<^verbatim>\<open>{}\<close>, no package id is
  defined and the run ends with \<open>DistributionError\<close> after that call.
\<close>

theorem upload_succeeded_without_identifier_counterexample:
  "returncode (grpcurl (demo_env upload_argv (demo_grpcurl 0 0 0 0 ''{}''))
     (Grpcurl 3902 (upload_request (demo_env upload_argv (demo_grpcurl 0 0 0 0 ''{}'')) ''DAR'' ''1.0.0'')))
     = 0 \<and>
   provider_package_id (demo_env upload_argv (demo_grpcurl 0 0 0 0 ''{}''))
     (grpcurl (demo_env upload_argv (demo_grpcurl 0 0 0 0 ''{}''))
       (Grpcurl 3902 (upload_request (demo_env upload_argv (demo_grpcurl 0 0 0 0 ''{}'')) ''DAR'' ''1.0.0'')))
     = Inl DistributionError \<and>
   upload_dar_main (demo_env upload_argv (demo_grpcurl 0 0 0 0 ''{}'')) demo_state =
     (Inl DistributionError,
      demo_state\<lparr>trace :=
        [Call (Grpcurl 3902
           (UploadDar ''DAR'' ''MinimalToken v1.0.0 - ProposeBurn/AcceptBurn pattern''))]\<rparr>)"
  by (simp add: upload_dar_main_cases [of _ demo_state "''1.0.0''" "''DAR''"] demo_simps Let_def)
    (simp add: demo_state_def)


section \<open>Properties of the registry file\<close>

subsection \<open>Matching one written entry\<close>

lemma quote_not_space: "\<not> is_space quote"
  by (simp add: is_space_def quote_def)

lemma takeWhile_upto:
  "c \<notin> set g \<Longrightarrow> takeWhile (\<lambda>x. x \<noteq> c) (g @ c # r) = g"
  by (induction g) auto

lemma dropWhile_upto:
  "c \<notin> set g \<Longrightarrow> dropWhile (\<lambda>x. x \<noteq> c) (g @ c # r) = c # r"
  by (induction g) auto

lemma space_facts:
  "is_space (CHR '' '')" "is_space (CHR ''\<newline>'')" "CHR '' '' \<noteq> quote" "CHR '':'' \<noteq> quote"
  by (simp_all add: is_space_def quote_def)

lemma match_entry_at_format:
  assumes "g1 \<noteq> []" "quote \<notin> set g1" "g2 \<noteq> []" "quote \<notin> set g2"
  shows "match_entry_at (format_entry (g1, g2) @ rest) = Some (g1, g2, rest)"
proof -
  have eq: "format_entry (g1, g2) @ rest =
          quote # (g1 @ quote # CHR '':'' # CHR '' '' # quote # (g2 @ quote # rest))"
    by (simp add: format_entry_def)
  show ?thesis
    unfolding eq using assms
    by (simp add: match_entry_at_def takeWhile_upto dropWhile_upto Let_def space_facts
        quote_not_space)
qed

lemma match_entry_at_Nil: "match_entry_at [] = None"
  by (simp add: match_entry_at_def)

lemma re_finditer_entries_match:
  "match_entry_at s = Some (g1, g2, rest) \<Longrightarrow>
     re_finditer_entries s = (g1, g2) # re_finditer_entries rest"
  by (cases s) (simp_all add: match_entry_at_Nil)

lemma match_entry_at_other: "c \<noteq> quote \<Longrightarrow> match_entry_at (c # s) = None"
  by (simp add: match_entry_at_def)

lemma re_finditer_entries_skip:
  "quote \<notin> set ws \<Longrightarrow> re_finditer_entries (ws @ s) = re_finditer_entries s"
  by (induction ws) (auto simp: match_entry_at_other)

lemma re_finditer_entries_join:
  assumes "\<forall>(g1, g2) \<in> set items. g1 \<noteq> [] \<and> quote \<notin> set g1 \<and> g2 \<noteq> [] \<and> quote \<notin> set g2"
    and "quote \<notin> set sep"
  shows "re_finditer_entries (str_join sep (map format_entry items) @ rest) =
           items @ re_finditer_entries rest"
  using assms(1)
proof (induction items rule: induct_list012)
  case 1
  then show ?case by simp
next
  case (2 x)
  obtain g1 g2 where x: "x = (g1, g2)" by (cases x)
  with 2 show ?case
    by (simp add: re_finditer_entries_match [OF match_entry_at_format])
next
  case (3 x y zs)
  obtain g1 g2 where x: "x = (g1, g2)" by (cases x)
  from 3 x have m: "match_entry_at (format_entry (g1, g2) @ r) = Some (g1, g2, r)" for r
    by (simp add: match_entry_at_format)
  have "re_finditer_entries (str_join sep (map format_entry (x # y # zs)) @ rest) =
          re_finditer_entries
            (format_entry (g1, g2) @ (sep @ (str_join sep (map format_entry (y # zs)) @ rest)))"
    by (simp add: x)
  also have "\<dots> = (g1, g2) #
      re_finditer_entries (sep @ (str_join sep (map format_entry (y # zs)) @ rest))"
    by (rule re_finditer_entries_match [OF m])
  also have "\<dots> = (g1, g2) # re_finditer_entries (str_join sep (map format_entry (y # zs)) @ rest)"
    by (simp add: re_finditer_entries_skip [OF assms(2)])
  also have "\<dots> = (g1, g2) # (y # zs) @ re_finditer_entries rest"
    using 3 by simp
  finally show ?case by (simp add: x)
qed


subsection \<open>What the parser returns\<close>

lemma set_takeWhile_subset: "set (takeWhile P xs) \<subseteq> set xs"
  by (induction xs) auto

lemma set_dropWhile_subset: "set (dropWhile P xs) \<subseteq> set xs"
  by (induction xs) auto

lemma set_tl_subset: "set (tl xs) \<subseteq> set xs"
  by (cases xs) auto

lemma quote_notin_takeWhile: "quote \<notin> set (takeWhile (\<lambda>x. x \<noteq> quote) xs)"
  by (induction xs) auto

lemma match_entry_at_groups:
  assumes "match_entry_at s = Some (g1, g2, rest)"
  shows "g1 \<noteq> [] \<and> quote \<notin> set g1 \<and> g2 \<noteq> [] \<and> quote \<notin> set g2 \<and>
         set g1 \<subseteq> set s \<and> set g2 \<subseteq> set s \<and> set rest \<subseteq> set s"
proof -
  from assms obtain c t r1 c2 r2 c3 r3 r4 where
    s: "s = c # t" and
    g1: "g1 = takeWhile (\<lambda>x. x \<noteq> quote) t" "g1 \<noteq> []" and
    r1: "r1 = dropWhile (\<lambda>x. x \<noteq> quote) t" and
    r2: "tl r1 = c2 # r2" and
    r3: "dropWhile is_space r2 = c3 # r3" and
    g2: "g2 = takeWhile (\<lambda>x. x \<noteq> quote) r3" "g2 \<noteq> []" and
    r4: "r4 = dropWhile (\<lambda>x. x \<noteq> quote) r3" and
    rest: "rest = tl r4"
    by (auto simp: match_entry_at_def Let_def split: if_splits list.splits)
  have "set r1 \<subseteq> set t" using r1 set_dropWhile_subset by fast
  moreover have "set r2 \<subseteq> set r1" using r2 set_tl_subset [of r1] by auto
  moreover have "set r3 \<subseteq> set r2" using r3 set_dropWhile_subset [of is_space r2] by auto
  ultimately have r3t: "set r3 \<subseteq> set t" by blast
  have "set g2 \<subseteq> set r3" using g2 set_takeWhile_subset by fast
  moreover have "set r4 \<subseteq> set r3" using r4 set_dropWhile_subset by fast
  moreover have "set rest \<subseteq> set r4" using rest set_tl_subset by fast
  moreover have "set g1 \<subseteq> set t" using g1 set_takeWhile_subset by fast
  ultimately show ?thesis
    using g1 g2 r3t s quote_notin_takeWhile by auto
qed

lemma re_finditer_entries_groups:
  "(g1, g2) \<in> set (re_finditer_entries s) \<Longrightarrow>
     g1 \<noteq> [] \<and> quote \<notin> set g1 \<and> g2 \<noteq> [] \<and> quote \<notin> set g2 \<and>
     set g1 \<subseteq> set s \<and> set g2 \<subseteq> set s"
proof (induction s arbitrary: g1 g2 rule: re_finditer_entries.induct)
  case 1
  then show ?case by simp
next
  case (2 c cs)
  show ?case
  proof (cases "match_entry_at (c # cs)")
    case None
    with 2 show ?thesis by auto
  next
    case (Some m)
    obtain h1 h2 rest where m: "m = (h1, h2, rest)" by (cases m)
    from match_entry_at_groups [of "c # cs" h1 h2 rest] Some m
    have h: "h1 \<noteq> [] \<and> quote \<notin> set h1 \<and> h2 \<noteq> [] \<and> quote \<notin> set h2 \<and>
         set h1 \<subseteq> set (c # cs) \<and> set h2 \<subseteq> set (c # cs) \<and> set rest \<subseteq> set (c # cs)"
      by simp
    from "2.prems" Some m
    consider "(g1, g2) = (h1, h2)" | "(g1, g2) \<in> set (re_finditer_entries rest)"
      by auto
    then show ?thesis
    proof cases
      case 1
      with h show ?thesis by simp
    next
      case 2
      from "2.IH"(2) [OF Some m [symmetric] refl 2] h show ?thesis by blast
    qed
  qed
qed

lemma set_update_subset: "set (AList.update k v al) \<subseteq> insert (k, v) (set al)"
  by (induction al) auto

lemma set_foldl_update:
  "set (foldl (\<lambda>versions (g1, g2). AList.update g1 g2 versions) al xs) \<subseteq> set al \<union> set xs"
proof (induction xs arbitrary: al)
  case Nil
  then show ?case by simp
next
  case (Cons x xs)
  obtain k v where x: "x = (k, v)" by (cases x)
  from Cons [of "AList.update k v al"] set_update_subset [of k v al] x
  show ?case by auto
qed

lemma distinct_foldl_update:
  "distinct (map fst al) \<Longrightarrow>
     distinct (map fst (foldl (\<lambda>versions (g1, g2). AList.update g1 g2 versions) al xs))"
  by (induction xs arbitrary: al) (auto simp: AList.distinct_update)

lemma distinct_parse_versions: "distinct (map fst (parse_versions content))"
  by (simp add: parse_versions_def distinct_foldl_update split: option.splits)

lemma match_versions_at_no_brace:
  "match_versions_at s = Some b \<Longrightarrow> CHR ''}'' \<notin> set b"
proof -
  have "CHR ''}'' \<notin> set (takeWhile (\<lambda>x. x \<noteq> CHR ''}'') t)" for t
    by (induction t) auto
  then show "match_versions_at s = Some b \<Longrightarrow> CHR ''}'' \<notin> set b"
    by (auto simp: match_versions_at_def split: if_splits list.splits)
qed

lemma re_search_versions_no_brace:
  "re_search_versions s = Some b \<Longrightarrow> CHR ''}'' \<notin> set b"
  by (induction s) (auto split: option.splits dest: match_versions_at_no_brace)

lemma parse_versions_entry_text:
  assumes "(g1, g2) \<in> set (parse_versions content)"
  shows "entry_text g1 \<and> entry_text g2"
proof (cases "re_search_versions content")
  case None
  with assms show ?thesis by (simp add: parse_versions_def)
next
  case (Some b)
  with assms set_foldl_update [of "[]" "re_finditer_entries b"]
  have "(g1, g2) \<in> set (re_finditer_entries b)"
    by (auto simp: parse_versions_def)
  from re_finditer_entries_groups [OF this] re_search_versions_no_brace [OF Some]
  show ?thesis by (auto simp: entry_text_def)
qed

lemma update_fresh: "k \<notin> fst ` set al \<Longrightarrow> AList.update k v al = al @ [(k, v)]"
  by (induction al) auto

lemma foldl_update_distinct:
  "distinct (map fst (al @ xs)) \<Longrightarrow>
     foldl (\<lambda>versions (g1, g2). AList.update g1 g2 versions) al xs = al @ xs"
proof (induction xs arbitrary: al)
  case Nil
  then show ?case by simp
next
  case (Cons x xs)
  obtain k v where x: "x = (k, v)" by (cases x)
  from Cons.prems x have "k \<notin> fst ` set al" by auto
  then have "AList.update k v al = al @ [(k, v)]" by (rule update_fresh)
  with Cons.IH [of "al @ [(k, v)]"] Cons.prems x show ?case by simp
qed


subsection \<open>Finding the versions block of a written file\<close>

lemma match_versions_at_other: "c \<noteq> CHR ''v'' \<Longrightarrow> match_versions_at (c # s) = None"
  by (simp add: match_versions_at_def)

lemma match_versions_at_blocked:
  assumes q: "CHR ''{'' \<notin> set q"
    and c: "c \<notin> set ''versions:''" "\<not> is_space c" "c \<noteq> CHR ''{''"
  shows "match_versions_at (q @ c # s) = None"
proof (cases "take 9 (q @ c # s) = ''versions:''")
  case False
  then show ?thesis by (simp add: match_versions_at_def)
next
  case True
  have len: "9 \<le> length q"
  proof (rule ccontr)
    assume "\<not> 9 \<le> length q"
    then have l: "length q < 9" by simp
    then have "take 9 (q @ c # s) ! length q = c"
      by (simp add: nth_append)
    with True have "''versions:'' ! length q = c" by simp
    moreover from l have "''versions:'' ! length q \<in> set ''versions:''"
      by (intro nth_mem) simp
    ultimately show False using c(1) by simp
  qed
  let ?q' = "drop 9 q"
  have d: "drop 9 (q @ c # s) = ?q' @ c # s" using len by simp
  have q': "CHR ''{'' \<notin> set ?q'" using q by (auto dest: in_set_dropD)
  have "\<exists>h t. dropWhile is_space (?q' @ c # s) = h # t \<and> h \<noteq> CHR ''{''"
  proof (cases "\<forall>x\<in>set ?q'. is_space x")
    case True
    then have "dropWhile is_space (?q' @ c # s) = c # s"
      using c(2) by (simp add: dropWhile_append)
    with c(3) show ?thesis by simp
  next
    case False
    then have ne: "dropWhile is_space ?q' \<noteq> []" by (simp add: dropWhile_eq_Nil_conv)
    then obtain h t where ht: "dropWhile is_space ?q' = h # t"
      by (cases "dropWhile is_space ?q'") auto
    then have "h \<in> set ?q'" using set_dropWhileD [of h is_space ?q'] by simp
    with q' have "h \<noteq> CHR ''{''" by auto
    moreover from False obtain x where "x \<in> set ?q'" "\<not> is_space x" by blast
    then have "dropWhile is_space (?q' @ c # s) = dropWhile is_space ?q' @ c # s"
      by (rule dropWhile_append1)
    with ht have "dropWhile is_space (?q' @ c # s) = h # (t @ c # s)" by simp
    ultimately show ?thesis by blast
  qed
  then show ?thesis unfolding match_versions_at_def d by auto
qed

lemma re_search_versions_skip:
  assumes "CHR ''{'' \<notin> set p"
    and c: "c \<notin> set ''versions:''" "\<not> is_space c" "c \<noteq> CHR ''{''"
  shows "re_search_versions (p @ c # s) = re_search_versions s"
  using assms(1)
proof (induction p)
  case Nil
  from c(1) have "c \<noteq> CHR ''v''" by auto
  then show ?case by (simp add: match_versions_at_other)
next
  case (Cons a p)
  then have "match_versions_at ((a # p) @ c # s) = None"
    by (intro match_versions_at_blocked c) 
  with Cons show ?case by simp
qed

lemma match_versions_at_block:
  assumes "CHR ''}'' \<notin> set body"
  shows "match_versions_at (''versions: {'' @ body @ CHR ''}'' # rest) = Some body"
proof -
  have "\<not> is_space (CHR ''{'')" by (simp add: is_space_def)
  then show ?thesis
    using assms by (simp add: match_versions_at_def space_facts takeWhile_upto)
qed


lemma re_search_versions_match:
  "match_versions_at s = Some b \<Longrightarrow> re_search_versions s = Some b"
  by (cases s) (simp_all add: match_versions_at_def)

lemma re_search_versions_other:
  "c \<noteq> CHR ''v'' \<Longrightarrow> re_search_versions (c # s) = re_search_versions s"
  by (simp add: match_versions_at_other)

lemma quote_blocks:
  "quote \<notin> set ''versions:''" "quote \<noteq> CHR ''{''" "quote \<noteq> CHR ''v''"
  by (simp_all add: quote_def)

lemma re_search_versions_new_content:
  assumes v: "CHR ''{'' \<notin> set version" and p: "CHR ''{'' \<notin> set package_id"
    and b: "CHR ''}'' \<notin> set versions_str"
  shows "re_search_versions (new_content version package_id versions_str) =
           Some (''\<newline>    '' @ versions_str @ ''\<newline>  '')"
proof -
  let ?body = "''\<newline>    '' @ versions_str @ ''\<newline>  ''"
  let ?r8 = "''versions: {'' @ ?body @
               CHR ''}'' # ''\<newline>};\<newline>\<newline>export default MINIMAL_TOKEN_PACKAGE_CONFIG;\<newline>''"
  let ?r7 = "CHR ''\<newline>'' # CHR '' '' # CHR '' '' # ?r8"
  let ?p4 = "'',\<newline>\<newline>  // All deployed versions (newest first''"
  let ?r6 = "?p4 @ CHR '')'' # ?r7"
  let ?r5 = "package_id @ quote # ?r6"
  let ?p3 = "'',\<newline>  currentPackageId: ''"
  let ?r4 = "?p3 @ quote # ?r5"
  let ?r3 = "version @ quote # ?r4"
  let ?p2 = "''\<newline>  // Current active version\<newline>  currentVersion: ''"
  let ?r2 = "?p2 @ quote # ?r3"
  let ?r1 = "CHR '' '' # CHR ''{'' # ?r2"
  let ?p1 = "''// MinimalToken Package Configuration\<newline>// This file is auto-generated by upload_dar.py\<newline>\<newline>export const MINIMAL_TOKEN_PACKAGE_CONFIG ''"
  have shape: "new_content version package_id versions_str = ?p1 @ CHR ''='' # ?r1"
    by (simp add: new_content_def)
  have "re_search_versions (?p1 @ CHR ''='' # ?r1) = re_search_versions ?r1"
    by (rule re_search_versions_skip) (simp_all add: is_space_def)
  also have "\<dots> = re_search_versions (CHR ''{'' # ?r2)"
    by (rule re_search_versions_other) simp
  also have "\<dots> = re_search_versions ?r2"
    by (rule re_search_versions_other) simp
  also have "\<dots> = re_search_versions ?r3"
    by (rule re_search_versions_skip) (simp_all add: quote_def is_space_def)
  also have "\<dots> = re_search_versions ?r4"
    by (rule re_search_versions_skip) (simp_all add: quote_def is_space_def v)
  also have "\<dots> = re_search_versions ?r5"
    by (rule re_search_versions_skip) (simp_all add: quote_def is_space_def)
  also have "\<dots> = re_search_versions ?r6"
    by (rule re_search_versions_skip) (simp_all add: quote_def is_space_def p)
  also have "\<dots> = re_search_versions ?r7"
    by (rule re_search_versions_skip) (simp_all add: is_space_def)
  also have "\<dots> = re_search_versions (CHR '' '' # CHR '' '' # ?r8)"
    by (rule re_search_versions_other) simp
  also have "\<dots> = re_search_versions (CHR '' '' # ?r8)"
    by (rule re_search_versions_other) simp
  also have "\<dots> = re_search_versions ?r8"
    by (rule re_search_versions_other) simp
  also have "\<dots> = Some ?body"
  proof (rule re_search_versions_match, rule match_versions_at_block)
    show "CHR ''}'' \<notin> set ?body" using b by simp
  qed
  finally show ?thesis unfolding shape .
qed


subsection \<open>Reading back what was written\<close>

lemma plain_text_entry_text: "plain_text s \<Longrightarrow> entry_text s"
  by (simp add: plain_text_def entry_text_def)

lemma set_str_join: "set (str_join sep xs) \<subseteq> set sep \<union> (\<Union>x\<in>set xs. set x)"
  by (induction sep xs rule: str_join.induct) auto

lemma set_format_entry:
  "set (format_entry (g1, g2)) = {quote, CHR '':'', CHR '' ''} \<union> set g1 \<union> set g2"
  by (auto simp: format_entry_def)

lemma no_brace_build_versions_str:
  assumes "\<forall>(g1, g2) \<in> set versions. entry_text g1 \<and> entry_text g2"
  shows "CHR ''}'' \<notin> set (build_versions_str versions)"
proof
  assume "CHR ''}'' \<in> set (build_versions_str versions)"
  with set_str_join [of "'',\<newline>    ''" "map format_entry (rev (sort versions))"]
  have "CHR ''}'' \<in> (\<Union>x\<in>set versions. set (format_entry x))"
    by (auto simp: build_versions_str_def)
  then obtain g1 g2 where "(g1, g2) \<in> set versions" "CHR ''}'' \<in> set (format_entry (g1, g2))"
    by auto
  with assms show False
    by (auto simp: set_format_entry entry_text_def quote_def)
qed

lemma merged_versions_entry_text:
  assumes "entry_text version" "entry_text package_id"
    and "(g1, g2) \<in> set (merged_versions content package_id version)"
  shows "entry_text g1 \<and> entry_text g2"
  using assms set_update_subset [of version package_id "parse_versions content"]
    parse_versions_entry_text [of g1 g2 content]
  by (auto simp: merged_versions_def)

lemma distinct_merged_versions:
  "distinct (map fst (merged_versions content package_id version))"
  by (simp add: merged_versions_def AList.distinct_update distinct_parse_versions)

lemma distinct_keys_sorted:
  assumes "distinct (map fst xs)"
  shows "distinct (map fst (rev (sort xs)))"
proof -
  from assms have "distinct xs" "inj_on fst (set xs)"
    by (simp_all add: distinct_map)
  then show ?thesis by (simp add: distinct_map)
qed

lemma parse_rewritten_content:
  assumes v: "plain_text version" and p: "plain_text package_id"
  shows "parse_versions (rewritten_content content package_id version) =
           rev (sort (merged_versions content package_id version))"
proof -
  let ?m = "merged_versions content package_id version"
  let ?items = "rev (sort ?m)"
  have et: "\<forall>(g1, g2) \<in> set ?m. entry_text g1 \<and> entry_text g2"
    using merged_versions_entry_text [OF plain_text_entry_text [OF v] plain_text_entry_text [OF p]]
    by blast
  then have b: "CHR ''}'' \<notin> set (build_versions_str ?m)"
    by (rule no_brace_build_versions_str)
  from v p have "CHR ''{'' \<notin> set version" "CHR ''{'' \<notin> set package_id"
    by (simp_all add: plain_text_def)
  then have search: "re_search_versions (rewritten_content content package_id version) =
      Some (''\<newline>    '' @ build_versions_str ?m @ ''\<newline>  '')"
    unfolding rewritten_content_def using b by (rule re_search_versions_new_content)
  have items: "\<forall>(g1, g2) \<in> set ?items. g1 \<noteq> [] \<and> quote \<notin> set g1 \<and> g2 \<noteq> [] \<and> quote \<notin> set g2"
    using et by (auto simp: entry_text_def)
  have "re_finditer_entries (''\<newline>    '' @ build_versions_str ?m @ ''\<newline>  '') =
          re_finditer_entries (build_versions_str ?m @ ''\<newline>  '')"
    by (rule re_finditer_entries_skip) (simp add: quote_def)
  also have "\<dots> = ?items @ re_finditer_entries ''\<newline>  ''"
    unfolding build_versions_str_def
    by (rule re_finditer_entries_join [OF items]) (simp add: quote_def)
  also have "re_finditer_entries ''\<newline>  '' = []"
    using re_finditer_entries_skip [of "''\<newline>  ''" "[]"] by (simp add: quote_def)
  finally have found:
    "re_finditer_entries (''\<newline>    '' @ build_versions_str ?m @ ''\<newline>  '') = ?items"
    by simp
  have "distinct (map fst ([] @ ?items))"
    using distinct_keys_sorted [OF distinct_merged_versions] by simp
  then have "foldl (\<lambda>versions (g1, g2). AList.update g1 g2 versions) [] ?items = [] @ ?items"
    by (rule foldl_update_distinct)
  then show ?thesis
    unfolding parse_versions_def search option.case found by simp
qed

subsection \<open>The text that is written\<close>

lemma universal_newlines_id: "CHR 0x0D \<notin> set s \<Longrightarrow> universal_newlines s = s"
  by (induction s rule: universal_newlines.induct) auto

lemma universal_newlines_no_cr: "CHR 0x0D \<notin> set (universal_newlines s)"
  by (induction s rule: universal_newlines.induct) auto

lemma str_join_listed:
  "str_join sep (map f items) =
     (case items of [] \<Rightarrow> [] | x # xs \<Rightarrow> f x @ concat (map (\<lambda>y. sep @ f y) xs))"
  by (induction items rule: induct_list012) auto

lemma rewritten_content_text:
  "rewritten_content content package_id version =
     registry_text version package_id (rev (sort (merged_versions content package_id version)))"
proof -
  have f: "format_entry = entry_line"
    by (auto simp: format_entry_def quote_def fun_eq_iff)
  show ?thesis
    unfolding rewritten_content_def new_content_def build_versions_str_def str_join_listed f
    by (simp add: quote_def)
qed


lemma match_versions_at_chars: "match_versions_at s = Some b \<Longrightarrow> set b \<subseteq> set s"
proof -
  assume m: "match_versions_at s = Some b"
  then obtain c t where d: "dropWhile is_space (drop 9 s) = c # t"
    and b: "b = takeWhile (\<lambda>x. x \<noteq> CHR ''}'') t"
    by (auto simp: match_versions_at_def split: if_splits list.splits)
  have "set b \<subseteq> set t" unfolding b by (rule set_takeWhile_subset)
  also have "set t \<subseteq> set (dropWhile is_space (drop 9 s))" unfolding d by auto
  also have "\<dots> \<subseteq> set (drop 9 s)" by (rule set_dropWhile_subset)
  also have "\<dots> \<subseteq> set s" by (rule set_drop_subset)
  finally show ?thesis .
qed

lemma re_search_versions_chars: "re_search_versions s = Some b \<Longrightarrow> set b \<subseteq> set s"
proof (induction s)
  case Nil
  then show ?case by simp
next
  case (Cons c cs)
  show ?case
  proof (cases "match_versions_at (c # cs)")
    case None
    with Cons show ?thesis by auto
  next
    case (Some b')
    with Cons.prems match_versions_at_chars [of "c # cs" b'] show ?thesis by simp
  qed
qed

lemma parse_versions_chars:
  assumes "(g1, g2) \<in> set (parse_versions content)"
  shows "set g1 \<subseteq> set content \<and> set g2 \<subseteq> set content"
proof (cases "re_search_versions content")
  case None
  with assms show ?thesis by (simp add: parse_versions_def)
next
  case (Some b)
  with assms set_foldl_update [of "[]" "re_finditer_entries b"]
  have "(g1, g2) \<in> set (re_finditer_entries b)"
    by (auto simp: parse_versions_def)
  from re_finditer_entries_groups [OF this] re_search_versions_chars [OF Some]
  show ?thesis by blast
qed

lemma merged_versions_no_cr:
  assumes "CHR 0x0D \<notin> set content" "CHR 0x0D \<notin> set version" "CHR 0x0D \<notin> set package_id"
    and "(g1, g2) \<in> set (merged_versions content package_id version)"
  shows "CHR 0x0D \<notin> set g1 \<and> CHR 0x0D \<notin> set g2"
  using assms set_update_subset [of version package_id "parse_versions content"]
    parse_versions_chars [of g1 g2 content]
  by (auto simp: merged_versions_def)

lemma build_versions_str_no_cr:
  assumes "\<forall>(g1, g2) \<in> set versions. CHR 0x0D \<notin> set g1 \<and> CHR 0x0D \<notin> set g2"
  shows "CHR 0x0D \<notin> set (build_versions_str versions)"
proof
  assume "CHR 0x0D \<in> set (build_versions_str versions)"
  with set_str_join [of "'',\<newline>    ''" "map format_entry (rev (sort versions))"]
  have "CHR 0x0D \<in> (\<Union>x\<in>set versions. set (format_entry x))"
    by (auto simp: build_versions_str_def)
  then obtain g1 g2 where "(g1, g2) \<in> set versions" "CHR 0x0D \<in> set (format_entry (g1, g2))"
    by auto
  with assms show False
    by (auto simp: set_format_entry quote_def)
qed

lemma rewritten_content_no_cr:
  assumes "CHR 0x0D \<notin> set content" "CHR 0x0D \<notin> set version" "CHR 0x0D \<notin> set package_id"
  shows "CHR 0x0D \<notin> set (rewritten_content content package_id version)"
proof -
  have "CHR 0x0D \<notin> set (build_versions_str (merged_versions content package_id version))"
    using merged_versions_no_cr [OF assms] by (intro build_versions_str_no_cr) blast
  with assms(2,3) show ?thesis
    by (simp add: rewritten_content_def new_content_def quote_def)
qed

lemma read_config_no_cr: "read_config e st = Inr content \<Longrightarrow> CHR 0x0D \<notin> set content"
  by (auto simp: read_config_def default_content_def universal_newlines_no_cr
      split: option.splits if_splits)

lemma read_back_rewritten_content:
  assumes "plain_text version" "plain_text package_id" "CHR 0x0D \<notin> set content"
  shows "parse_versions (universal_newlines (rewritten_content content package_id version)) =
           rev (sort (merged_versions content package_id version))"
proof -
  from assms have "CHR 0x0D \<notin> set (rewritten_content content package_id version)"
    by (intro rewritten_content_no_cr) (simp_all add: plain_text_def)
  then show ?thesis
    using assms by (simp add: universal_newlines_id parse_rewritten_content)
qed

subsection \<open>The order of the entries\<close>

lemma fst_mono_prod: "(p :: string \<times> string) \<le> q \<Longrightarrow> fst p \<le> fst q"
  by (auto simp: less_eq_prod_def)

lemma sorted_keys_descending:
  "sorted_wrt (\<lambda>a b. fst b \<le> fst a) (rev (sort (versions :: (string \<times> string) list)))"
proof -
  have "sorted_wrt (\<le>) (sort versions)" by simp
  then have "sorted_wrt (\<lambda>a b. fst a \<le> fst b) (sort versions)"
    by (rule sorted_wrt_mono_rel [rotated]) (rule fst_mono_prod)
  then show ?thesis by (simp add: sorted_wrt_rev)
qed

lemma strictly_descending:
  "sorted_wrt (\<lambda>a b. fst b \<le> fst a) xs \<Longrightarrow> distinct (map fst xs) \<Longrightarrow>
     sorted_wrt (\<lambda>a b. fst b < fst a) xs" for xs :: "(string \<times> string) list"
proof (induction xs)
  case Nil
  then show ?case by simp
next
  case (Cons a xs)
  have "fst b < fst a" if "b \<in> set xs" for b
  proof -
    from Cons.prems that have "fst b \<le> fst a" by simp
    moreover from Cons.prems that have "fst a \<notin> fst ` set xs" by simp
    with that have "fst b \<noteq> fst a" by (metis imageI)
    ultimately show ?thesis by simp
  qed
  with Cons show ?case by simp
qed

lemma sorted_keys_strictly_descending:
  assumes "distinct (map fst versions)"
  shows "sorted_wrt (\<lambda>a b. fst b < fst a) (rev (sort (versions :: (string \<times> string) list)))"
proof -
  from assms have "distinct (map fst (rev (sort versions)))"
    by (rule distinct_keys_sorted)
  with sorted_keys_descending [of versions] show ?thesis
    by (rule strictly_descending)
qed

lemma map_of_sorted:
  assumes "distinct (map fst xs)"
  shows "map_of (rev (sort xs)) = map_of xs"
proof -
  have "distinct (map fst (rev (sort xs)))"
    using assms by (rule distinct_keys_sorted)
  moreover have "set (rev (sort xs)) = set xs" by simp
  ultimately show ?thesis using assms by (simp add: map_of_inject_set)
qed

subsection \<open>What an update writes and what is read back\<close>

lemma update_package_config_written:
  assumes "read_config e st = Inr content" and "\<not> unwritable e (config_path e)"
  shows "\<exists>items.
     update_package_config e package_id version st =
       (Inr (),
        st\<lparr>files := (files st)(config_path e \<mapsto>
             registry_text version (py_str e package_id) items)\<rparr>) \<and>
     sorted_wrt (\<lambda>a b. fst b < fst a) items \<and>
     map_of items = (map_of (parse_versions content))(version \<mapsto> py_str e package_id) \<and>
     (plain_text version \<and> plain_text (py_str e package_id) \<longrightarrow>
        parse_versions (universal_newlines (registry_text version (py_str e package_id) items)) =
          items)"
proof -
  let ?id = "py_str e package_id"
  let ?m = "merged_versions content ?id version"
  let ?items = "rev (sort ?m)"
  have u: "update_package_config e package_id version st =
       (Inr (), st\<lparr>files := (files st)(config_path e \<mapsto> registry_text version ?id ?items)\<rparr>)"
    using assms
    by (simp only: update_package_config_def sum.case Let_def if_False
        rewritten_content_text [symmetric])
  have s: "sorted_wrt (\<lambda>a b. fst b < fst a) ?items"
    by (rule sorted_keys_strictly_descending [OF distinct_merged_versions])
  have m: "map_of ?items = (map_of (parse_versions content))(version \<mapsto> ?id)"
    by (simp add: map_of_sorted distinct_merged_versions) (simp add: merged_versions_def update_conv')
  have r: "parse_versions (universal_newlines (registry_text version ?id ?items)) = ?items"
    if "plain_text version \<and> plain_text ?id"
    unfolding rewritten_content_text [symmetric]
    using that read_config_no_cr [OF assms(1)]
    by (intro read_back_rewritten_content) simp_all
  from u s m r show ?thesis by blast
qed

lemma read_config_written:
  assumes "\<not> unreadable e (config_path e)"
  shows "read_config e (st\<lparr>files := (files st)(config_path e \<mapsto> text)\<rparr>) =
           Inr (universal_newlines text)"
  using assms by (simp add: read_config_def)

lemma read_config_readable:
  assumes "\<not> unreadable e (config_path e)"
  shows "\<exists>content. read_config e st = Inr content"
  using assms by (simp add: read_config_def split: option.splits)


subsection \<open>Examples\<close>

lemma parse_default_content: "parse_versions default_content = []"
  by code_simp

lemma parse_registry_text_100: "parse_versions registry_text_100 = [(''1.0.0'', ''abc123'')]"
  by code_simp

lemma parse_registry_text_090:
  "parse_versions registry_text_090 = [(''1.0.0'', ''abc123''), (''0.9.0'', ''old999'')]"
  by code_simp

lemma parse_registry_text_brace: "parse_versions registry_text_brace = []"
  by code_simp

lemma parse_registry_text_evil:
  "parse_versions registry_text_evil = [(''1.0.0'', ''evil''), (''0.9.0'', ''x'')]"
  by code_simp

lemma example_texts_no_cr:
  "universal_newlines registry_text_100 = registry_text_100"
  "universal_newlines registry_text_090 = registry_text_090"
  "universal_newlines registry_text_brace = registry_text_brace"
  "universal_newlines registry_text_evil = registry_text_evil"
  by (rule universal_newlines_id, simp add: registry_text_100_def registry_text_090_def
      registry_text_brace_def registry_text_evil_def)+

lemma example_sorts:
  "rev (sort [(''1.0.0'', ''abc123''), (''0.9.0'', ''old999'')]) =
     [(''1.0.0'', ''abc123''), (''0.9.0'', ''old999'')]"
  "rev (sort [(''1.0.0'', ''abc123''), (''0.9.0'', evil_id)]) =
     [(''1.0.0'', ''abc123''), (''0.9.0'', evil_id)]"
  "rev (sort [(''9.0.0'', ''a''), (''10.0.0'', ''b'')]) = [(''9.0.0'', ''a''), (''10.0.0'', ''b'')]"
  by code_simp+

lemma example_texts:
  "registry_text ''1.0.0'' ''abc123'' [(''1.0.0'', ''abc123'')] = registry_text_100"
  "registry_text ''0.9.0'' ''old999'' [(''1.0.0'', ''abc123''), (''0.9.0'', ''old999'')] =
     registry_text_090"
  "registry_text ''1.0.0}'' ''abc123'' [(''1.0.0}'', ''abc123'')] = registry_text_brace"
  "registry_text ''0.9.0'' evil_id [(''1.0.0'', ''abc123''), (''0.9.0'', evil_id)] =
     registry_text_evil"
  by (simp_all add: registry_text_100_def registry_text_090_def registry_text_brace_def
      registry_text_evil_def evil_id_def)


lemma plain_examples:
  "plain_text ''1.0.0''" "plain_text ''0.9.0''" "plain_text ''abc123''" "plain_text ''old999''"
  by (simp_all add: plain_text_def quote_def)

lemma update_package_config_example:
  assumes "read_config e st = Inr content" and "\<not> unwritable e (config_path e)"
    and "parse_versions content = old"
    and "rev (sort (AList.update version (py_str e package_id) old)) = items"
  shows "update_package_config e package_id version st =
           (Inr (),
            st\<lparr>files := (files st)(config_path e \<mapsto>
                 registry_text version (py_str e package_id) items)\<rparr>)"
  using assms
  by (simp only: update_package_config_def sum.case Let_def if_False rewritten_content_text
      merged_versions_def)

lemma registry_entries_written:
  assumes "\<not> unreadable e (config_path e)"
  shows "registry_entries e (st\<lparr>files := (files st)(config_path e \<mapsto> text)\<rparr>) =
           Inr (parse_versions (universal_newlines text))"
  using assms by (simp add: registry_entries_def read_config_written)

lemma demo_config_path: "config_path (demo_env a g) = ''/repo/src/config/packageConfig.js''"
  by (simp add: config_path_def path_join_def demo_env_def)

lemma demo_read_config: "read_config (demo_env a g) demo_state = Inr default_content"
  by (simp add: read_config_def demo_config_path demo_state_def)

lemma demo_py_str: "py_str (demo_env a g) (PStr s) = s"
  by (simp add: py_str_def)

lemma update_demo:
  "update_package_config (demo_env a g) (PStr ''abc123'') ''1.0.0'' demo_state =
     (Inr (),
      demo_state\<lparr>files := (files demo_state)(''/repo/src/config/packageConfig.js'' \<mapsto>
        registry_text_100)\<rparr>)"
proof -
  have "rev (sort (AList.update ''1.0.0'' (py_str (demo_env a g) (PStr ''abc123'')) [])) =
      [(''1.0.0'', ''abc123'')]"
    by (simp add: demo_py_str)
  from update_package_config_example [OF demo_read_config demo_io(2) parse_default_content this]
  show ?thesis
    by (simp only: demo_py_str demo_config_path example_texts)
qed

lemma update_brace:
  "update_package_config (demo_env a g) (PStr ''abc123'') ''1.0.0}'' demo_state =
     (Inr (),
      demo_state\<lparr>files := (files demo_state)(''/repo/src/config/packageConfig.js'' \<mapsto>
        registry_text_brace)\<rparr>)"
proof -
  have "rev (sort (AList.update ''1.0.0}'' (py_str (demo_env a g) (PStr ''abc123'')) [])) =
      [(''1.0.0}'', ''abc123'')]"
    by (simp add: demo_py_str)
  from update_package_config_example [OF demo_read_config demo_io(2) parse_default_content this]
  show ?thesis
    by (simp only: demo_py_str demo_config_path example_texts)
qed

lemma registry_env_simps:
  "resolve_version registry_env st = Inr ''0.9.0''"
  "files registry_state (get_dar_path registry_env ''0.9.0'') = Some ''DAR''"
  "config_path registry_env = ''/repo/src/config/packageConfig.js''"
  "files registry_state ''/repo/src/config/packageConfig.js'' = Some registry_text_100"
  "\<not> unreadable registry_env p" "\<not> unwritable registry_env p"
  "py_str registry_env (PStr s) = s"
  by (simp_all add: resolve_version_def get_dar_path_def DAML_PROJECT_PATH_def config_path_def
      path_join_def registry_env_def registry_state_def py_str_def)

lemma registry_read_config: "read_config registry_env registry_state = Inr registry_text_100"
  by (simp add: read_config_def registry_env_simps example_texts_no_cr)

lemma update_registry:
  "update_package_config registry_env (PStr ''old999'') ''0.9.0'' registry_state =
     (Inr (),
      registry_state\<lparr>files := (files registry_state)(''/repo/src/config/packageConfig.js'' \<mapsto>
        registry_text_090)\<rparr>)"
proof -
  have "rev (sort (AList.update ''0.9.0'' (py_str registry_env (PStr ''old999''))
      [(''1.0.0'', ''abc123'')])) = [(''1.0.0'', ''abc123''), (''0.9.0'', ''old999'')]"
    by (simp add: registry_env_simps example_sorts)
  from update_package_config_example
    [OF registry_read_config registry_env_simps(6) parse_registry_text_100 this]
  show ?thesis
    by (simp only: registry_env_simps example_texts)
qed

lemma update_evil:
  "update_package_config registry_env (PStr evil_id) ''0.9.0'' registry_state =
     (Inr (),
      registry_state\<lparr>files := (files registry_state)(''/repo/src/config/packageConfig.js'' \<mapsto>
        registry_text_evil)\<rparr>)"
proof -
  have "rev (sort (AList.update ''0.9.0'' (py_str registry_env (PStr evil_id))
      [(''1.0.0'', ''abc123'')])) = [(''1.0.0'', ''abc123''), (''0.9.0'', evil_id)]"
    by (simp add: registry_env_simps example_sorts)
  from update_package_config_example
    [OF registry_read_config registry_env_simps(6) parse_registry_text_100 this]
  show ?thesis
    by (simp only: registry_env_simps example_texts)
qed

subsection \<open>Contents that the parser does not recognize\<close>

lemma no_quote_no_entries: "quote \<notin> set s \<Longrightarrow> re_finditer_entries s = []"
  using re_finditer_entries_skip [of s "[]"] by simp

lemma rewritten_single:
  "parse_versions content = [] \<Longrightarrow>
     rewritten_content content package_id version =
       new_content version package_id (format_entry (version, package_id))"
  by (simp add: rewritten_content_def merged_versions_def build_versions_str_def)

text \<open>
  Claim C10. Parsing is total and \<^verbatim>\<open>update_package_config\<close> has no error for a
  content: when the registry file can be read and written, the update succeeds for
  every content of the file and writes the new file. When the content has no versions
  block of the expected shape, or the block has no quote at all (so no entry of the
  pattern), no entry is parsed, and the file written holds the new entry only: the
  prior entries are dropped.
\<close>

theorem registry_parsing_never_fails:
  "(\<not> unreadable e (config_path e) \<and> \<not> unwritable e (config_path e) \<longrightarrow>
      update_package_config e package_id version st =
        (Inr (),
         st\<lparr>files := (files st)(config_path e \<mapsto>
            rewritten_content
              (case files st (config_path e) of
                 Some text \<Rightarrow> universal_newlines text | None \<Rightarrow> default_content)
              (py_str e package_id) version)\<rparr>)) \<and>
   (re_search_versions content = None \<longrightarrow>
      parse_versions content = [] \<and>
      rewritten_content content pid version = new_content version pid (format_entry (version, pid))) \<and>
   (re_search_versions content = Some versions_str \<and> quote \<notin> set versions_str \<longrightarrow>
      parse_versions content = [] \<and>
      rewritten_content content pid version = new_content version pid (format_entry (version, pid)))"
proof (intro conjI impI)
  assume "\<not> unreadable e (config_path e) \<and> \<not> unwritable e (config_path e)"
  then show "update_package_config e package_id version st =
        (Inr (),
         st\<lparr>files := (files st)(config_path e \<mapsto>
            rewritten_content
              (case files st (config_path e) of
                 Some text \<Rightarrow> universal_newlines text | None \<Rightarrow> default_content)
              (py_str e package_id) version)\<rparr>)"
    by (simp add: update_package_config_ok)
next
  assume "re_search_versions content = None"
  then show a: "parse_versions content = []" by (simp add: parse_versions_def)
  then show "rewritten_content content pid version =
      new_content version pid (format_entry (version, pid))"
    by (rule rewritten_single)
next
  assume "re_search_versions content = Some versions_str \<and> quote \<notin> set versions_str"
  then show a: "parse_versions content = []"
    by (simp add: parse_versions_def no_quote_no_entries)
  then show "rewritten_content content pid version =
      new_content version pid (format_entry (version, pid))"
    by (rule rewritten_single)
qed

theorem registry_parsing_never_fails_witness:
  \<open>parse_versions ''module.exports = {};'' = [] \<and>
   rewritten_content ''module.exports = {};'' ''abc123'' ''1.0.0'' =
     new_content ''1.0.0'' ''abc123'' (format_entry (''1.0.0'', ''abc123'')) \<and>
   parse_versions ''versions: {"0.9.0": "old999"}'' = [] \<and>
   rewritten_content ''versions: {"0.9.0": "old999"}'' ''abc123'' ''1.0.0'' =
     new_content ''1.0.0'' ''abc123'' (format_entry (''1.0.0'', ''abc123''))\<close>
proof -
  have a: "re_search_versions ''module.exports = {};'' = None"
    by code_simp
  have b: \<open>re_search_versions ''versions: {"0.9.0": "old999"}'' = Some ''"0.9.0": "old999"''\<close>
    by code_simp
  have c: \<open>quote \<notin> set ''"0.9.0": "old999"''\<close>
    by (simp add: quote_def)
  from registry_parsing_never_fails [where content = "''module.exports = {};''"
      and pid = "''abc123''" and version = "''1.0.0''"] a
  have "parse_versions ''module.exports = {};'' = [] \<and>
   rewritten_content ''module.exports = {};'' ''abc123'' ''1.0.0'' =
     new_content ''1.0.0'' ''abc123'' (format_entry (''1.0.0'', ''abc123''))"
    by blast
  moreover
  from registry_parsing_never_fails [where content = \<open>''versions: {"0.9.0": "old999"}''\<close>
      and versions_str = \<open>''"0.9.0": "old999"''\<close>
      and pid = "''abc123''" and version = "''1.0.0''"] b c
  have \<open>parse_versions ''versions: {"0.9.0": "old999"}'' = [] \<and>
   rewritten_content ''versions: {"0.9.0": "old999"}'' ''abc123'' ''1.0.0'' =
     new_content ''1.0.0'' ''abc123'' (format_entry (''1.0.0'', ''abc123''))\<close>
    by blast
  ultimately show ?thesis by simp
qed



subsection \<open>The order of the entries in the file\<close>

text \<open>
  Claim C9. For every dictionary (a list of entries in which no version occurs twice),
  the serialized text is a listing, entry after entry, of a rearrangement of the entries
  in which the versions strictly descend in the lexicographic order of strings
  (characters compared by code). And for every content read from the registry file,
  the file that \<^verbatim>\<open>update_package_config\<close> writes is the registry text whose versions
  block lists such a descending list, which holds the entries parsed from the old
  content with the version mapped to the new package id.
\<close>

theorem registry_sorted_descending:
  "(distinct (map fst versions) \<longrightarrow>
      (\<exists>items. build_versions_str versions = listed_entries items \<and>
               set items = set versions \<and>
               sorted_wrt (\<lambda>a b. fst b < fst a) items)) \<and>
   (read_config e st = Inr content \<and> \<not> unwritable e (config_path e) \<longrightarrow>
      (\<exists>items.
         update_package_config e package_id version st =
           (Inr (),
            st\<lparr>files := (files st)(config_path e \<mapsto>
                 registry_text version (py_str e package_id) items)\<rparr>) \<and>
         sorted_wrt (\<lambda>a b. fst b < fst a) items \<and>
         map_of items = (map_of (parse_versions content))(version \<mapsto> py_str e package_id)))"
proof (intro conjI impI)
  assume d: "distinct (map fst versions)"
  have f: "format_entry = entry_line"
    by (auto simp: format_entry_def quote_def fun_eq_iff)
  have "build_versions_str versions = listed_entries (rev (sort versions))"
    unfolding build_versions_str_def str_join_listed f ..
  moreover have "set (rev (sort versions)) = set versions" by simp
  moreover have "sorted_wrt (\<lambda>a b. fst b < fst a) (rev (sort versions))"
    using d by (rule sorted_keys_strictly_descending)
  ultimately show "\<exists>items. build_versions_str versions = listed_entries items \<and>
      set items = set versions \<and> sorted_wrt (\<lambda>a b. fst b < fst a) items"
    by blast
next
  assume "read_config e st = Inr content \<and> \<not> unwritable e (config_path e)"
  then have "read_config e st = Inr content" "\<not> unwritable e (config_path e)" by simp_all
  from update_package_config_written [OF this, of package_id version]
  show "\<exists>items.
         update_package_config e package_id version st =
           (Inr (),
            st\<lparr>files := (files st)(config_path e \<mapsto>
                 registry_text version (py_str e package_id) items)\<rparr>) \<and>
         sorted_wrt (\<lambda>a b. fst b < fst a) items \<and>
         map_of items = (map_of (parse_versions content))(version \<mapsto> py_str e package_id)"
    by blast
qed

theorem registry_sorted_descending_witness:
  "distinct (map fst [(''0.9.0'', ''old999''), (''1.0.0'', ''abc123'')]) \<and>
   (\<exists>items. build_versions_str [(''0.9.0'', ''old999''), (''1.0.0'', ''abc123'')] =
              listed_entries items \<and>
            set items = set [(''0.9.0'', ''old999''), (''1.0.0'', ''abc123'')] \<and>
            sorted_wrt (\<lambda>a b. fst b < fst a) items) \<and>
   build_versions_str [(''0.9.0'', ''old999''), (''1.0.0'', ''abc123'')] =
     listed_entries [(''1.0.0'', ''abc123''), (''0.9.0'', ''old999'')] \<and>
   build_versions_str [(''10.0.0'', ''b''), (''9.0.0'', ''a'')] =
     listed_entries [(''9.0.0'', ''a''), (''10.0.0'', ''b'')] \<and>
   read_config registry_env registry_state = Inr registry_text_100 \<and>
   \<not> unwritable registry_env (config_path registry_env) \<and>
   update_package_config registry_env (PStr ''old999'') ''0.9.0'' registry_state =
     (Inr (),
      registry_state\<lparr>files := (files registry_state)(''/repo/src/config/packageConfig.js'' \<mapsto>
        registry_text_090)\<rparr>)"
proof -
  have d: "distinct (map fst [(''0.9.0'', ''old999''), (''1.0.0'', ''abc123'')])"
    by simp
  from registry_sorted_descending
    [where versions = "[(''0.9.0'', ''old999''), (''1.0.0'', ''abc123'')]"] d
  have e: "\<exists>items. build_versions_str [(''0.9.0'', ''old999''), (''1.0.0'', ''abc123'')] =
              listed_entries items \<and>
            set items = set [(''0.9.0'', ''old999''), (''1.0.0'', ''abc123'')] \<and>
            sorted_wrt (\<lambda>a b. fst b < fst a) items"
    by blast
  have f: "format_entry = entry_line"
    by (auto simp: format_entry_def quote_def fun_eq_iff)
  have s1: "rev (sort [(''0.9.0'', ''old999''), (''1.0.0'', ''abc123'')]) =
      [(''1.0.0'', ''abc123''), (''0.9.0'', ''old999'')]"
    by code_simp
  have s2: "rev (sort [(''10.0.0'', ''b''), (''9.0.0'', ''a'')]) =
      [(''9.0.0'', ''a''), (''10.0.0'', ''b'')]"
    by code_simp
  have b1: "build_versions_str [(''0.9.0'', ''old999''), (''1.0.0'', ''abc123'')] =
     listed_entries [(''1.0.0'', ''abc123''), (''0.9.0'', ''old999'')]"
    unfolding build_versions_str_def str_join_listed f s1 ..
  have b2: "build_versions_str [(''10.0.0'', ''b''), (''9.0.0'', ''a'')] =
     listed_entries [(''9.0.0'', ''a''), (''10.0.0'', ''b'')]"
    unfolding build_versions_str_def str_join_listed f s2 ..
  from d e b1 b2 registry_read_config registry_env_simps(6) update_registry
  show ?thesis by blast
qed


subsection \<open>Writing and reading back\<close>

lemma registry_entries_readable:
  assumes "\<not> unreadable e (config_path e)"
  obtains content where "read_config e st = Inr content"
    "registry_entries e st = Inr (parse_versions content)"
  using assms read_config_readable [OF assms, of st]
  by (auto simp: registry_entries_def)

text \<open>
  Claim C8, as the code has it. For every state of the registry file, and every version
  and package id that are not empty and contain no quote, no brace and no carriage
  return, when the file can be read and written: the update writes the registry text
  that lists \<open>items\<close>, which are the entries read before with the version mapped to
  the package id, and reading and parsing the file written gives exactly \<open>items\<close>.
  Nothing is required of the old content.
\<close>

theorem registry_round_trip:
  assumes "plain_text version" and "plain_text (py_str e package_id)"
    and "\<not> unreadable e (config_path e)" and "\<not> unwritable e (config_path e)"
  shows "\<exists>old items st'.
     registry_entries e st = Inr old \<and>
     update_package_config e package_id version st = (Inr (), st') \<and>
     files st' (config_path e) = Some (registry_text version (py_str e package_id) items) \<and>
     map_of items = (map_of old)(version \<mapsto> py_str e package_id) \<and>
     registry_entries e st' = Inr items"
proof -
  from assms(3) obtain content where c: "read_config e st = Inr content"
    and o: "registry_entries e st = Inr (parse_versions content)"
    by (rule registry_entries_readable)
  from update_package_config_written [OF c assms(4), of package_id version] assms(1,2)
  obtain items where
    u: "update_package_config e package_id version st =
       (Inr (),
        st\<lparr>files := (files st)(config_path e \<mapsto>
             registry_text version (py_str e package_id) items)\<rparr>)" and
    m: "map_of items = (map_of (parse_versions content))(version \<mapsto> py_str e package_id)" and
    r: "parse_versions (universal_newlines (registry_text version (py_str e package_id) items)) =
          items"
    by blast
  let ?st' = "st\<lparr>files := (files st)(config_path e \<mapsto>
             registry_text version (py_str e package_id) items)\<rparr>"
  have "registry_entries e ?st' = Inr items"
    unfolding registry_entries_written [OF assms(3)] r ..
  moreover have "files ?st' (config_path e) =
      Some (registry_text version (py_str e package_id) items)"
    by simp
  ultimately show ?thesis using o u m by blast
qed

theorem registry_round_trip_witness:
  "plain_text ''0.9.0'' \<and> plain_text (py_str registry_env (PStr ''old999'')) \<and>
   \<not> unreadable registry_env (config_path registry_env) \<and>
   \<not> unwritable registry_env (config_path registry_env) \<and>
   (\<exists>old items st'.
     registry_entries registry_env registry_state = Inr old \<and>
     update_package_config registry_env (PStr ''old999'') ''0.9.0'' registry_state = (Inr (), st') \<and>
     files st' (config_path registry_env) =
       Some (registry_text ''0.9.0'' (py_str registry_env (PStr ''old999'')) items) \<and>
     map_of items = (map_of old)(''0.9.0'' \<mapsto> py_str registry_env (PStr ''old999'')) \<and>
     registry_entries registry_env st' = Inr items) \<and>
   update_package_config registry_env (PStr ''old999'') ''0.9.0'' registry_state =
     (Inr (),
      registry_state\<lparr>files := (files registry_state)(''/repo/src/config/packageConfig.js'' \<mapsto>
        registry_text_090)\<rparr>) \<and>
   registry_entries registry_env
     (registry_state\<lparr>files := (files registry_state)(''/repo/src/config/packageConfig.js'' \<mapsto>
        registry_text_090)\<rparr>) =
     Inr [(''1.0.0'', ''abc123''), (''0.9.0'', ''old999'')]"
proof -
  have p: "plain_text ''0.9.0''" "plain_text (py_str registry_env (PStr ''old999''))"
    by (simp_all add: registry_env_simps plain_examples)
  note t = registry_round_trip [OF p registry_env_simps(5) registry_env_simps(6),
      where st = registry_state]
  have "registry_entries registry_env
     (registry_state\<lparr>files := (files registry_state)(''/repo/src/config/packageConfig.js'' \<mapsto>
        registry_text_090)\<rparr>) =
     Inr [(''1.0.0'', ''abc123''), (''0.9.0'', ''old999'')]"
    using registry_entries_written [of registry_env registry_state registry_text_090]
    by (simp add: registry_env_simps example_texts_no_cr parse_registry_text_090)
  with p t update_registry registry_env_simps(5,6) show ?thesis by blast
qed

text \<open>
  Claim C8 as stated fails for a version that contains a closing brace: the file
  written lists the entry for \<^verbatim>\<open>1.0.0}\<close>, but the versions block found when the file
  is read ends inside the entry, and no entry is read back.
\<close>

theorem registry_round_trip_counterexample:
  "update_package_config (demo_env upload_argv (demo_grpcurl 0 0 0 0 demo_stdout))
     (PStr ''abc123'') ''1.0.0}'' demo_state =
     (Inr (),
      demo_state\<lparr>files := (files demo_state)(''/repo/src/config/packageConfig.js'' \<mapsto>
        registry_text_brace)\<rparr>) \<and>
   registry_text_brace = registry_text ''1.0.0}'' ''abc123'' [(''1.0.0}'', ''abc123'')] \<and>
   registry_entries (demo_env upload_argv (demo_grpcurl 0 0 0 0 demo_stdout))
     (demo_state\<lparr>files := (files demo_state)(''/repo/src/config/packageConfig.js'' \<mapsto>
        registry_text_brace)\<rparr>) = Inr []"
proof -
  let ?e = "demo_env upload_argv (demo_grpcurl 0 0 0 0 demo_stdout)"
  have "registry_entries ?e
     (demo_state\<lparr>files := (files demo_state)(''/repo/src/config/packageConfig.js'' \<mapsto>
        registry_text_brace)\<rparr>) = Inr []"
    using registry_entries_written [of ?e demo_state registry_text_brace]
    by (simp add: demo_config_path demo_io example_texts_no_cr parse_registry_text_brace)
  with update_brace [of upload_argv] example_texts(3) show ?thesis by simp
qed


subsection \<open>The update of the entries\<close>

lemma parse_versions_distinct_entries:
  "registry_entries e st = Inr entries \<Longrightarrow> distinct (map fst entries)"
  by (auto simp: registry_entries_def distinct_parse_versions split: sum.splits)

text \<open>
  Claim C7, as the code has it. For every state of the registry file, and every version
  and package id that are not empty and contain no quote, no brace and no carriage
  return, when the file can be read and written: after \<^verbatim>\<open>update_package_config\<close> the
  entries read from the file are the entries read before with the version mapped to
  the package id (overwritten if it was there, inserted if not, every other version as
  before), one entry for each version. A second update of the same version, with a
  package id \<open>id2\<close> of the same kind, leaves the entries read before the first update
  with the version mapped to \<open>id2\<close>: only the later identifier is kept.
\<close>

theorem registry_upsert:
  assumes "plain_text version" and "plain_text (py_str e package_id)"
    and "\<not> unreadable e (config_path e)" and "\<not> unwritable e (config_path e)"
  shows "\<exists>old new st'.
     registry_entries e st = Inr old \<and>
     update_package_config e package_id version st = (Inr (), st') \<and>
     files st' (config_path e) = Some (registry_text version (py_str e package_id) new) \<and>
     registry_entries e st' = Inr new \<and>
     map_of new = (map_of old)(version \<mapsto> py_str e package_id) \<and>
     distinct (map fst new) \<and>
     (plain_text (py_str e id2) \<longrightarrow>
        (\<exists>new2 st''.
           update_package_config e id2 version st' = (Inr (), st'') \<and>
           files st'' (config_path e) = Some (registry_text version (py_str e id2) new2) \<and>
           registry_entries e st'' = Inr new2 \<and>
           map_of new2 = (map_of old)(version \<mapsto> py_str e id2) \<and>
           distinct (map fst new2)))"
proof -
  have step: "\<exists>old new s'.
     registry_entries e s = Inr old \<and>
     update_package_config e pid version s = (Inr (), s') \<and>
     files s' (config_path e) = Some (registry_text version (py_str e pid) new) \<and>
     registry_entries e s' = Inr new \<and>
     map_of new = (map_of old)(version \<mapsto> py_str e pid) \<and>
     distinct (map fst new)"
    if pid: "plain_text (py_str e pid)" for pid s
  proof -
    from assms(3) obtain content where c: "read_config e s = Inr content"
      and o: "registry_entries e s = Inr (parse_versions content)"
      by (rule registry_entries_readable)
    from update_package_config_written [OF c assms(4), of pid version] assms(1) pid
    obtain items where
      u: "update_package_config e pid version s =
         (Inr (),
          s\<lparr>files := (files s)(config_path e \<mapsto> registry_text version (py_str e pid) items)\<rparr>)" and
      m: "map_of items = (map_of (parse_versions content))(version \<mapsto> py_str e pid)" and
      r: "parse_versions (universal_newlines (registry_text version (py_str e pid) items)) = items"
      by blast
    let ?s' = "s\<lparr>files := (files s)(config_path e \<mapsto> registry_text version (py_str e pid) items)\<rparr>"
    have e': "registry_entries e ?s' = Inr items"
      unfolding registry_entries_written [OF assms(3)] r ..
    then have "distinct (map fst items)" by (rule parse_versions_distinct_entries)
    moreover have "files ?s' (config_path e) = Some (registry_text version (py_str e pid) items)"
      by simp
    ultimately show ?thesis using o u m e' by blast
  qed
  from step [OF assms(2), of st] obtain old new st' where
    o: "registry_entries e st = Inr old" and
    u: "update_package_config e package_id version st = (Inr (), st')" and
    f: "files st' (config_path e) = Some (registry_text version (py_str e package_id) new)" and
    n: "registry_entries e st' = Inr new" and
    m: "map_of new = (map_of old)(version \<mapsto> py_str e package_id)" and
    d: "distinct (map fst new)"
    by blast
  have "\<exists>new2 st''.
           update_package_config e id2 version st' = (Inr (), st'') \<and>
           files st'' (config_path e) = Some (registry_text version (py_str e id2) new2) \<and>
           registry_entries e st'' = Inr new2 \<and>
           map_of new2 = (map_of old)(version \<mapsto> py_str e id2) \<and>
           distinct (map fst new2)"
    if "plain_text (py_str e id2)"
  proof -
    from step [OF that, of st'] n obtain new2 st'' where
      "update_package_config e id2 version st' = (Inr (), st'')"
      "files st'' (config_path e) = Some (registry_text version (py_str e id2) new2)"
      "registry_entries e st'' = Inr new2"
      "map_of new2 = (map_of new)(version \<mapsto> py_str e id2)"
      "distinct (map fst new2)"
      by auto
    with m show ?thesis by auto
  qed
  with o u f n m d show ?thesis by blast
qed


lemma registry_entries_examples:
  "registry_entries registry_env registry_state = Inr [(''1.0.0'', ''abc123'')]"
  "registry_entries registry_env
     (registry_state\<lparr>files := (files registry_state)(''/repo/src/config/packageConfig.js'' \<mapsto>
        registry_text_090)\<rparr>) =
     Inr [(''1.0.0'', ''abc123''), (''0.9.0'', ''old999'')]"
  "registry_entries registry_env
     (registry_state\<lparr>files := (files registry_state)(''/repo/src/config/packageConfig.js'' \<mapsto>
        registry_text_evil)\<rparr>) =
     Inr [(''1.0.0'', ''evil''), (''0.9.0'', ''x'')]"
proof -
  show "registry_entries registry_env registry_state = Inr [(''1.0.0'', ''abc123'')]"
    by (simp add: registry_entries_def registry_read_config parse_registry_text_100)
  show "registry_entries registry_env
     (registry_state\<lparr>files := (files registry_state)(''/repo/src/config/packageConfig.js'' \<mapsto>
        registry_text_090)\<rparr>) =
     Inr [(''1.0.0'', ''abc123''), (''0.9.0'', ''old999'')]"
    using registry_entries_written [of registry_env registry_state registry_text_090]
    by (simp add: registry_env_simps example_texts_no_cr parse_registry_text_090)
  show "registry_entries registry_env
     (registry_state\<lparr>files := (files registry_state)(''/repo/src/config/packageConfig.js'' \<mapsto>
        registry_text_evil)\<rparr>) =
     Inr [(''1.0.0'', ''evil''), (''0.9.0'', ''x'')]"
    using registry_entries_written [of registry_env registry_state registry_text_evil]
    by (simp add: registry_env_simps example_texts_no_cr parse_registry_text_evil)
qed

theorem registry_upsert_witness:
  "plain_text ''0.9.0'' \<and> plain_text (py_str registry_env (PStr ''old999'')) \<and>
   \<not> unreadable registry_env (config_path registry_env) \<and>
   \<not> unwritable registry_env (config_path registry_env) \<and>
   (\<exists>old new st'.
     registry_entries registry_env registry_state = Inr old \<and>
     update_package_config registry_env (PStr ''old999'') ''0.9.0'' registry_state = (Inr (), st') \<and>
     registry_entries registry_env st' = Inr new \<and>
     map_of new = (map_of old)(''0.9.0'' \<mapsto> py_str registry_env (PStr ''old999'')) \<and>
     (\<exists>new2 st''.
        update_package_config registry_env (PStr ''abc123'') ''0.9.0'' st' = (Inr (), st'') \<and>
        registry_entries registry_env st'' = Inr new2 \<and>
        map_of new2 = (map_of old)(''0.9.0'' \<mapsto> py_str registry_env (PStr ''abc123'')))) \<and>
   registry_entries registry_env registry_state = Inr [(''1.0.0'', ''abc123'')] \<and>
   update_package_config registry_env (PStr ''old999'') ''0.9.0'' registry_state =
     (Inr (),
      registry_state\<lparr>files := (files registry_state)(''/repo/src/config/packageConfig.js'' \<mapsto>
        registry_text_090)\<rparr>) \<and>
   registry_entries registry_env
     (registry_state\<lparr>files := (files registry_state)(''/repo/src/config/packageConfig.js'' \<mapsto>
        registry_text_090)\<rparr>) =
     Inr [(''1.0.0'', ''abc123''), (''0.9.0'', ''old999'')]"
proof -
  have p: "plain_text ''0.9.0''" "plain_text (py_str registry_env (PStr ''old999''))"
    "plain_text (py_str registry_env (PStr ''abc123''))"
    by (simp_all add: registry_env_simps plain_examples)
  from registry_upsert [OF p(1,2) registry_env_simps(5) registry_env_simps(6),
      where st = registry_state and ?id2.0 = "PStr ''abc123''"] p(3)
  have "\<exists>old new st'.
     registry_entries registry_env registry_state = Inr old \<and>
     update_package_config registry_env (PStr ''old999'') ''0.9.0'' registry_state = (Inr (), st') \<and>
     registry_entries registry_env st' = Inr new \<and>
     map_of new = (map_of old)(''0.9.0'' \<mapsto> py_str registry_env (PStr ''old999'')) \<and>
     (\<exists>new2 st''.
        update_package_config registry_env (PStr ''abc123'') ''0.9.0'' st' = (Inr (), st'') \<and>
        registry_entries registry_env st'' = Inr new2 \<and>
        map_of new2 = (map_of old)(''0.9.0'' \<mapsto> py_str registry_env (PStr ''abc123'')))"
    by blast
  with p(1,2) registry_env_simps(5,6) registry_entries_examples(1,2) update_registry
  show ?thesis by blast
qed

text \<open>
  Claim C7 as stated fails for a package id that holds quotes. The registry holds
  version 1.0.0 with package id abc123; the update for version 0.9.0 with the package
  id \<^verbatim>\<open>x', '1.0.0': 'evil\<close> writes the id as it is, and the entries read from the file
  written give version 1.0.0 the package id evil.
\<close>

theorem registry_upsert_counterexample:
  "registry_entries registry_env registry_state = Inr [(''1.0.0'', ''abc123'')] \<and>
   evil_id = ''x'' @ [CHR 0x27] @ '', '' @ [CHR 0x27] @ ''1.0.0'' @ [CHR 0x27] @ '': '' @
     [CHR 0x27] @ ''evil'' \<and>
   update_package_config registry_env (PStr evil_id) ''0.9.0'' registry_state =
     (Inr (),
      registry_state\<lparr>files := (files registry_state)(''/repo/src/config/packageConfig.js'' \<mapsto>
        registry_text_evil)\<rparr>) \<and>
   registry_text_evil =
     registry_text ''0.9.0'' evil_id [(''1.0.0'', ''abc123''), (''0.9.0'', evil_id)] \<and>
   registry_entries registry_env
     (registry_state\<lparr>files := (files registry_state)(''/repo/src/config/packageConfig.js'' \<mapsto>
        registry_text_evil)\<rparr>) =
     Inr [(''1.0.0'', ''evil''), (''0.9.0'', ''x'')]"
proof -
  have "evil_id = ''x'' @ [CHR 0x27] @ '', '' @ [CHR 0x27] @ ''1.0.0'' @ [CHR 0x27] @ '': '' @
     [CHR 0x27] @ ''evil''"
    by (simp add: evil_id_def)
  with registry_entries_examples(1,3) update_evil example_texts(4) show ?thesis by simp
qed


section \<open>Properties of a run that completes\<close>

subsection \<open>The final state\<close>

lemma read_config_trace: "read_config e (st\<lparr>trace := t\<rparr>) = read_config e st"
  by (simp add: read_config_def)

lemma upload_dar_main_completes:
  assumes "resolve_version e st = Inr version"
    and "files st (get_dar_path e version) = Some dar_bytes"
    and "provider_package_id e (grpcurl e (Grpcurl 3902 (upload_request e dar_bytes version))) =
           Inr package_id"
    and "returncode (grpcurl e (Grpcurl 2902 (upload_request e dar_bytes version))) = 0"
    and "read_config e st = Inr content"
    and "\<not> unwritable e (config_path e)"
  shows "\<exists>items.
     upload_dar_main e st =
        (Inr (),
         st\<lparr>trace := trace st @
              [Call (Grpcurl 3902 (upload_request e dar_bytes version)),
               Call (Grpcurl 2902 (upload_request e dar_bytes version)),
               Call (Grpcurl 3902 (VetDar package_id))] @
              (if returncode (grpcurl e (Grpcurl 3902 (VetDar package_id))) \<noteq> 0
               then [Warning ''app-provider'' (stderr (grpcurl e (Grpcurl 3902 (VetDar package_id))))]
               else []) @
              [Call (Grpcurl 2902 (VetDar package_id))] @
              (if returncode (grpcurl e (Grpcurl 2902 (VetDar package_id))) \<noteq> 0
               then [Warning ''app-user'' (stderr (grpcurl e (Grpcurl 2902 (VetDar package_id))))]
               else []),
            files := (files st)(config_path e \<mapsto>
              registry_text version (py_str e package_id) items)\<rparr>) \<and>
     sorted_wrt (\<lambda>a b. fst b < fst a) items \<and>
     map_of items = (map_of (parse_versions content))(version \<mapsto> py_str e package_id) \<and>
     (plain_text version \<and> plain_text (py_str e package_id) \<longrightarrow>
        parse_versions (universal_newlines (registry_text version (py_str e package_id) items)) =
          items)"
proof -
  let ?req = "upload_request e dar_bytes version"
  let ?t = "trace st @
              [Call (Grpcurl 3902 ?req), Call (Grpcurl 2902 ?req),
               Call (Grpcurl 3902 (VetDar package_id))] @
              (if returncode (grpcurl e (Grpcurl 3902 (VetDar package_id))) \<noteq> 0
               then [Warning ''app-provider'' (stderr (grpcurl e (Grpcurl 3902 (VetDar package_id))))]
               else []) @
              [Call (Grpcurl 2902 (VetDar package_id))] @
              (if returncode (grpcurl e (Grpcurl 2902 (VetDar package_id))) \<noteq> 0
               then [Warning ''app-user'' (stderr (grpcurl e (Grpcurl 2902 (VetDar package_id))))]
               else [])"
  have m: "upload_dar_main e st = update_package_config e package_id version (st\<lparr>trace := ?t\<rparr>)"
    unfolding upload_dar_main_cases [OF assms(1,2)] using assms(3,4)
    by (simp add: Let_def vet_dar_trace)
  have c: "read_config e (st\<lparr>trace := ?t\<rparr>) = Inr content"
    using assms(5) by (simp only: read_config_trace)
  from update_package_config_written [OF c assms(6), of package_id version]
  obtain items where
    u: "update_package_config e package_id version (st\<lparr>trace := ?t\<rparr>) =
       (Inr (),
        st\<lparr>trace := ?t\<rparr>\<lparr>files := (files (st\<lparr>trace := ?t\<rparr>))(config_path e \<mapsto>
             registry_text version (py_str e package_id) items)\<rparr>)" and
    r: "sorted_wrt (\<lambda>a b. fst b < fst a) items"
      "map_of items = (map_of (parse_versions content))(version \<mapsto> py_str e package_id)"
      "plain_text version \<and> plain_text (py_str e package_id) \<longrightarrow>
        parse_versions (universal_newlines (registry_text version (py_str e package_id) items)) =
          items"
    by blast
  have "upload_dar_main e st =
      (Inr (), st\<lparr>trace := ?t, files := (files st)(config_path e \<mapsto>
              registry_text version (py_str e package_id) items)\<rparr>)"
    unfolding m u by simp
  with r show ?thesis by blast
qed


subsection \<open>Vetting failures\<close>

text \<open>
  Claim C3. When all uploads succeeded (the authoritative one with a package id), the
  answers to the vetting calls do not decide how the run ends: with any other answers
  \<open>g\<close> the outcome and the files are the same. \<^verbatim>\<open>vet_dar\<close> returns a state, it has no
  way to end the run: it calls app-provider, then app-user whatever the first answer
  was, and adds a warning with the error output after each call that failed. When the
  registry file can be read and written, the run completes, its trace is the two
  uploads, the two vetting calls and the warnings, and the registry file written is,
  character by character, the text with the version as \<^verbatim>\<open>currentVersion\<close>, the
  package id as \<^verbatim>\<open>currentPackageId\<close> and the listing of \<open>items\<close> in the versions
  block, where \<open>items\<close> has strictly descending keys and holds the entries read before
  the run with the version mapped to the package id.
\<close>

theorem activation_failure_is_not_fatal:
  assumes "resolve_version e st = Inr version"
    and "files st (get_dar_path e version) = Some dar_bytes"
    and "provider_package_id e (grpcurl e (Grpcurl 3902 (upload_request e dar_bytes version))) =
           Inr package_id"
    and "returncode (grpcurl e (Grpcurl 2902 (upload_request e dar_bytes version))) = 0"
  shows
    "fst (upload_dar_main (with_vet_results g e) st) = fst (upload_dar_main e st) \<and>
     files (snd (upload_dar_main (with_vet_results g e) st)) = files (snd (upload_dar_main e st)) \<and>
     (\<not> unreadable e (config_path e) \<and> \<not> unwritable e (config_path e) \<longrightarrow>
      (\<exists>old items.
         registry_entries e st = Inr old \<and>
         upload_dar_main e st =
           (Inr (),
            st\<lparr>trace := trace st @
                 [Call (Grpcurl 3902 (upload_request e dar_bytes version)),
                  Call (Grpcurl 2902 (upload_request e dar_bytes version)),
                  Call (Grpcurl 3902 (VetDar package_id))] @
                 (if returncode (grpcurl e (Grpcurl 3902 (VetDar package_id))) \<noteq> 0
                  then [Warning ''app-provider''
                          (stderr (grpcurl e (Grpcurl 3902 (VetDar package_id))))]
                  else []) @
                 [Call (Grpcurl 2902 (VetDar package_id))] @
                 (if returncode (grpcurl e (Grpcurl 2902 (VetDar package_id))) \<noteq> 0
                  then [Warning ''app-user''
                          (stderr (grpcurl e (Grpcurl 2902 (VetDar package_id))))]
                  else []),
               files := (files st)(config_path e \<mapsto>
                 registry_text version (py_str e package_id) items)\<rparr>) \<and>
         sorted_wrt (\<lambda>a b. fst b < fst a) items \<and>
         map_of items = (map_of old)(version \<mapsto> py_str e package_id)))"
proof (intro conjI impI)
  show "fst (upload_dar_main (with_vet_results g e) st) = fst (upload_dar_main e st)"
    and "files (snd (upload_dar_main (with_vet_results g e) st)) = files (snd (upload_dar_main e st))"
    using upload_dar_main_vet_independent by blast+
next
  assume io: "\<not> unreadable e (config_path e) \<and> \<not> unwritable e (config_path e)"
  then obtain content where c: "read_config e st = Inr content"
    and o: "registry_entries e st = Inr (parse_versions content)"
    using registry_entries_readable [of e st] by blast
  from upload_dar_main_completes [OF assms c] io o
  show "\<exists>old items.
         registry_entries e st = Inr old \<and>
         upload_dar_main e st =
           (Inr (),
            st\<lparr>trace := trace st @
                 [Call (Grpcurl 3902 (upload_request e dar_bytes version)),
                  Call (Grpcurl 2902 (upload_request e dar_bytes version)),
                  Call (Grpcurl 3902 (VetDar package_id))] @
                 (if returncode (grpcurl e (Grpcurl 3902 (VetDar package_id))) \<noteq> 0
                  then [Warning ''app-provider''
                          (stderr (grpcurl e (Grpcurl 3902 (VetDar package_id))))]
                  else []) @
                 [Call (Grpcurl 2902 (VetDar package_id))] @
                 (if returncode (grpcurl e (Grpcurl 2902 (VetDar package_id))) \<noteq> 0
                  then [Warning ''app-user''
                          (stderr (grpcurl e (Grpcurl 2902 (VetDar package_id))))]
                  else []),
               files := (files st)(config_path e \<mapsto>
                 registry_text version (py_str e package_id) items)\<rparr>) \<and>
         sorted_wrt (\<lambda>a b. fst b < fst a) items \<and>
         map_of items = (map_of old)(version \<mapsto> py_str e package_id)"
    by blast
qed

lemma update_demo_trace:
  "update_package_config (demo_env a g) (PStr ''abc123'') ''1.0.0'' (demo_state\<lparr>trace := t\<rparr>) =
     (Inr (),
      demo_state\<lparr>trace := t,
        files := (files demo_state)(''/repo/src/config/packageConfig.js'' \<mapsto>
          registry_text_100)\<rparr>)"
proof -
  have r: "read_config (demo_env a g) (demo_state\<lparr>trace := t\<rparr>) = Inr default_content"
    by (simp only: read_config_trace demo_read_config)
  have "rev (sort (AList.update ''1.0.0'' (py_str (demo_env a g) (PStr ''abc123'')) [])) =
      [(''1.0.0'', ''abc123'')]"
    by (simp add: demo_py_str)
  from update_package_config_example [OF r demo_io(2) parse_default_content this]
  have "update_package_config (demo_env a g) (PStr ''abc123'') ''1.0.0'' (demo_state\<lparr>trace := t\<rparr>) =
     (Inr (),
      demo_state\<lparr>trace := t\<rparr>\<lparr>files := (files (demo_state\<lparr>trace := t\<rparr>))
        (''/repo/src/config/packageConfig.js'' \<mapsto> registry_text_100)\<rparr>)"
    by (simp only: demo_py_str demo_config_path example_texts)
  then show ?thesis by simp
qed

lemma demo_run:
  "upload_dar_main (demo_env upload_argv (demo_grpcurl 0 0 1 0 demo_stdout)) demo_state =
     (Inr (),
      demo_state\<lparr>trace :=
         [Call (Grpcurl 3902 (UploadDar ''DAR'' ''MinimalToken v1.0.0 - ProposeBurn/AcceptBurn pattern'')),
          Call (Grpcurl 2902 (UploadDar ''DAR'' ''MinimalToken v1.0.0 - ProposeBurn/AcceptBurn pattern'')),
          Call (Grpcurl 3902 (VetDar (PStr ''abc123''))),
          Warning ''app-provider'' ''vetting refused'',
          Call (Grpcurl 2902 (VetDar (PStr ''abc123'')))],
        files := (files demo_state)(''/repo/src/config/packageConfig.js'' \<mapsto>
          registry_text_100)\<rparr>)"
proof -
  let ?e = "demo_env upload_argv (demo_grpcurl 0 0 1 0 demo_stdout)"
  have t: "trace demo_state = []" by (simp add: demo_state_def)
  have "upload_dar_main ?e demo_state =
      update_package_config ?e (PStr ''abc123'') ''1.0.0''
        (vet_dar ?e (PStr ''abc123'')
          (demo_state\<lparr>trace := trace demo_state @
             [Call (Grpcurl 3902 (upload_request ?e ''DAR'' ''1.0.0'')),
              Call (Grpcurl 2902 (upload_request ?e ''DAR'' ''1.0.0''))]\<rparr>))"
    by (simp add: upload_dar_main_cases [of ?e demo_state "''1.0.0''" "''DAR''"] demo_simps Let_def)
  also have "\<dots> = update_package_config ?e (PStr ''abc123'') ''1.0.0''
      (demo_state\<lparr>trace :=
         [Call (Grpcurl 3902 (UploadDar ''DAR'' ''MinimalToken v1.0.0 - ProposeBurn/AcceptBurn pattern'')),
          Call (Grpcurl 2902 (UploadDar ''DAR'' ''MinimalToken v1.0.0 - ProposeBurn/AcceptBurn pattern'')),
          Call (Grpcurl 3902 (VetDar (PStr ''abc123''))),
          Warning ''app-provider'' ''vetting refused'',
          Call (Grpcurl 2902 (VetDar (PStr ''abc123'')))]\<rparr>)"
    by (simp add: vet_dar_trace demo_simps t)
  finally show ?thesis
    by (simp only: update_demo_trace)
qed

theorem activation_failure_is_not_fatal_witness:
  "resolve_version (demo_env upload_argv (demo_grpcurl 0 0 1 0 demo_stdout)) demo_state =
     Inr ''1.0.0'' \<and>
   files demo_state ''/repo/daml/minimal-token/.daml/dist/minimal-token-1.0.0.dar'' =
     Some ''DAR'' \<and>
   returncode (grpcurl (demo_env upload_argv (demo_grpcurl 0 0 1 0 demo_stdout))
     (Grpcurl 3902 (VetDar (PStr ''abc123'')))) \<noteq> 0 \<and>
   \<not> unreadable (demo_env upload_argv (demo_grpcurl 0 0 1 0 demo_stdout))
     ''/repo/src/config/packageConfig.js'' \<and>
   \<not> unwritable (demo_env upload_argv (demo_grpcurl 0 0 1 0 demo_stdout))
     ''/repo/src/config/packageConfig.js'' \<and>
   fst (upload_dar_main
     (with_vet_results (\<lambda>port p. \<lparr>returncode = 0, stdout = [], stderr = []\<rparr>)
        (demo_env upload_argv (demo_grpcurl 0 0 1 0 demo_stdout))) demo_state) = Inr () \<and>
   (\<exists>items.
      upload_dar_main (demo_env upload_argv (demo_grpcurl 0 0 1 0 demo_stdout)) demo_state =
        (Inr (),
         demo_state\<lparr>trace :=
           [Call (Grpcurl 3902 (UploadDar ''DAR'' ''MinimalToken v1.0.0 - ProposeBurn/AcceptBurn pattern'')),
            Call (Grpcurl 2902 (UploadDar ''DAR'' ''MinimalToken v1.0.0 - ProposeBurn/AcceptBurn pattern'')),
            Call (Grpcurl 3902 (VetDar (PStr ''abc123''))),
            Warning ''app-provider'' ''vetting refused'',
            Call (Grpcurl 2902 (VetDar (PStr ''abc123'')))],
           files := (files demo_state)(''/repo/src/config/packageConfig.js'' \<mapsto>
             registry_text ''1.0.0'' ''abc123'' items)\<rparr>) \<and>
      map_of items = [''1.0.0'' \<mapsto> ''abc123'']) \<and>
   upload_dar_main (demo_env upload_argv (demo_grpcurl 0 0 1 0 demo_stdout)) demo_state =
     (Inr (),
      demo_state\<lparr>trace :=
         [Call (Grpcurl 3902 (UploadDar ''DAR'' ''MinimalToken v1.0.0 - ProposeBurn/AcceptBurn pattern'')),
          Call (Grpcurl 2902 (UploadDar ''DAR'' ''MinimalToken v1.0.0 - ProposeBurn/AcceptBurn pattern'')),
          Call (Grpcurl 3902 (VetDar (PStr ''abc123''))),
          Warning ''app-provider'' ''vetting refused'',
          Call (Grpcurl 2902 (VetDar (PStr ''abc123'')))],
        files := (files demo_state)(''/repo/src/config/packageConfig.js'' \<mapsto>
          registry_text_100)\<rparr>)"
proof -
  let ?e = "demo_env upload_argv (demo_grpcurl 0 0 1 0 demo_stdout)"
  let ?g = "\<lambda>(port :: nat) (p :: pyobj). \<lparr>returncode = 0 :: int, stdout = [], stderr = []\<rparr>"
  have prem: "resolve_version ?e demo_state = Inr ''1.0.0''"
    "files demo_state (get_dar_path ?e ''1.0.0'') = Some ''DAR''"
    "provider_package_id ?e (grpcurl ?e (Grpcurl 3902 (upload_request ?e ''DAR'' ''1.0.0''))) =
       Inr (PStr ''abc123'')"
    "returncode (grpcurl ?e (Grpcurl 2902 (upload_request ?e ''DAR'' ''1.0.0''))) = 0"
    by (simp_all add: demo_simps)
  have io: "\<not> unreadable ?e (config_path ?e) \<and> \<not> unwritable ?e (config_path ?e)"
    by (simp add: demo_io)
  have old: "registry_entries ?e demo_state = Inr []"
    by (simp add: registry_entries_def demo_read_config parse_default_content)
  note t = activation_failure_is_not_fatal [OF prem, of ?g]
  from t have i: "fst (upload_dar_main (with_vet_results ?g ?e) demo_state) =
      fst (upload_dar_main ?e demo_state)"
    by (rule conjunct1)
  from t io old obtain items where
    u: "upload_dar_main ?e demo_state =
           (Inr (),
            demo_state\<lparr>trace := trace demo_state @
                 [Call (Grpcurl 3902 (upload_request ?e ''DAR'' ''1.0.0'')),
                  Call (Grpcurl 2902 (upload_request ?e ''DAR'' ''1.0.0'')),
                  Call (Grpcurl 3902 (VetDar (PStr ''abc123'')))] @
                 (if returncode (grpcurl ?e (Grpcurl 3902 (VetDar (PStr ''abc123'')))) \<noteq> 0
                  then [Warning ''app-provider''
                          (stderr (grpcurl ?e (Grpcurl 3902 (VetDar (PStr ''abc123'')))))]
                  else []) @
                 [Call (Grpcurl 2902 (VetDar (PStr ''abc123'')))] @
                 (if returncode (grpcurl ?e (Grpcurl 2902 (VetDar (PStr ''abc123'')))) \<noteq> 0
                  then [Warning ''app-user''
                          (stderr (grpcurl ?e (Grpcurl 2902 (VetDar (PStr ''abc123'')))))]
                  else []),
               files := (files demo_state)(config_path ?e \<mapsto>
                 registry_text ''1.0.0'' (py_str ?e (PStr ''abc123'')) items)\<rparr>)" and
    m: "map_of items = (map_of [])(''1.0.0'' \<mapsto> py_str ?e (PStr ''abc123''))"
    by auto
  have tr: "trace demo_state = []" by (simp add: demo_state_def)
  from u m have "\<exists>items.
      upload_dar_main ?e demo_state =
        (Inr (),
         demo_state\<lparr>trace :=
           [Call (Grpcurl 3902 (UploadDar ''DAR'' ''MinimalToken v1.0.0 - ProposeBurn/AcceptBurn pattern'')),
            Call (Grpcurl 2902 (UploadDar ''DAR'' ''MinimalToken v1.0.0 - ProposeBurn/AcceptBurn pattern'')),
            Call (Grpcurl 3902 (VetDar (PStr ''abc123''))),
            Warning ''app-provider'' ''vetting refused'',
            Call (Grpcurl 2902 (VetDar (PStr ''abc123'')))],
           files := (files demo_state)(''/repo/src/config/packageConfig.js'' \<mapsto>
             registry_text ''1.0.0'' ''abc123'' items)\<rparr>) \<and>
      map_of items = [''1.0.0'' \<mapsto> ''abc123'']"
    by (intro exI [of _ items]) (simp add: demo_simps demo_py_str demo_config_path tr)
  moreover have "files demo_state ''/repo/daml/minimal-token/.daml/dist/minimal-token-1.0.0.dar'' =
     Some ''DAR''"
    by (simp add: demo_state_def)
  ultimately show ?thesis using i demo_run by (simp add: demo_simps)
qed


subsection \<open>The registry after a run that completes\<close>

lemma upload_dar_main_Inr:
  assumes "upload_dar_main e st = (Inr (), st')"
  obtains version dar_bytes package_id where
    "resolve_version e st = Inr version"
    "files st (get_dar_path e version) = Some dar_bytes"
    "provider_package_id e (grpcurl e (Grpcurl 3902 (upload_request e dar_bytes version))) =
       Inr package_id"
    "returncode (grpcurl e (Grpcurl 2902 (upload_request e dar_bytes version))) = 0"
    "update_package_config e package_id version
       (vet_dar e package_id
          (st\<lparr>trace := trace st @
             [Call (Grpcurl 3902 (upload_request e dar_bytes version)),
              Call (Grpcurl 2902 (upload_request e dar_bytes version))]\<rparr>)) = (Inr (), st')"
proof -
  from assms obtain version where v: "resolve_version e st = Inr version"
    by (cases "resolve_version e st") (auto simp: upload_dar_main_def)
  from assms v obtain dar_bytes where d: "files st (get_dar_path e version) = Some dar_bytes"
    by (cases "files st (get_dar_path e version)") (auto simp: upload_dar_main_def upload_dar_def)
  note c = upload_dar_main_cases [OF v d]
  from assms obtain package_id where
    p: "provider_package_id e (grpcurl e (Grpcurl 3902 (upload_request e dar_bytes version))) =
       Inr package_id"
    unfolding c
    by (cases "provider_package_id e (grpcurl e (Grpcurl 3902 (upload_request e dar_bytes version)))")
      (auto simp: Let_def)
  from assms p have r: "returncode (grpcurl e (Grpcurl 2902 (upload_request e dar_bytes version))) = 0"
    unfolding c by (auto simp: Let_def split: if_splits)
  from assms p r have "update_package_config e package_id version
       (vet_dar e package_id
          (st\<lparr>trace := trace st @
             [Call (Grpcurl 3902 (upload_request e dar_bytes version)),
              Call (Grpcurl 2902 (upload_request e dar_bytes version))]\<rparr>)) = (Inr (), st')"
    unfolding c by (simp add: Let_def)
  with v d p r show thesis by (rule that)
qed


lemma update_package_config_reads:
  "update_package_config e package_id version st = (Inr (), st') \<Longrightarrow>
     (\<exists>content. read_config e st = Inr content) \<and> \<not> unwritable e (config_path e)"
  by (auto simp: update_package_config_def Let_def split: sum.splits if_splits)

lemma registry_entries_of_file:
  assumes "\<not> unreadable e (config_path e)" and "files s (config_path e) = Some text"
  shows "registry_entries e s = Inr (parse_versions (universal_newlines text))"
  using assms by (simp add: registry_entries_def read_config_def)

text \<open>
  Claim C5, as the code has it. A run of the upload command that completes has resolved
  a version whose DAR exists, and has got a package id from the response of the
  authoritative node. The registry file then is, character by character, the text with
  that version as \<^verbatim>\<open>currentVersion\<close>, that package id as \<^verbatim>\<open>currentPackageId\<close> and
  the listing of \<open>items\<close> in the versions block, where \<open>items\<close> holds the entries read
  before the run with the version mapped to the package id, whatever the versions that
  were there: no comparison of versions decides what is written. When the version and
  the package id are not empty and contain no quote, no brace and no carriage return,
  and the file can be read, the entries read from the file written are \<open>items\<close>.
\<close>

theorem completed_run_registers_version:
  assumes "upload_dar_main e st = (Inr (), st')"
  shows "\<exists>version dar_bytes package_id old items.
     resolve_version e st = Inr version \<and>
     files st (get_dar_path e version) = Some dar_bytes \<and>
     provider_package_id e (grpcurl e (Grpcurl 3902 (upload_request e dar_bytes version))) =
       Inr package_id \<and>
     registry_entries e st = Inr old \<and>
     files st' (config_path e) = Some (registry_text version (py_str e package_id) items) \<and>
     sorted_wrt (\<lambda>a b. fst b < fst a) items \<and>
     map_of items = (map_of old)(version \<mapsto> py_str e package_id) \<and>
     (plain_text version \<and> plain_text (py_str e package_id) \<and>
      \<not> unreadable e (config_path e) \<longrightarrow>
        registry_entries e st' = Inr items)"
proof -
  from assms obtain version dar_bytes package_id where
    v: "resolve_version e st = Inr version" and
    d: "files st (get_dar_path e version) = Some dar_bytes" and
    p: "provider_package_id e (grpcurl e (Grpcurl 3902 (upload_request e dar_bytes version))) =
       Inr package_id" and
    r: "returncode (grpcurl e (Grpcurl 2902 (upload_request e dar_bytes version))) = 0" and
    u: "update_package_config e package_id version
       (vet_dar e package_id
          (st\<lparr>trace := trace st @
             [Call (Grpcurl 3902 (upload_request e dar_bytes version)),
              Call (Grpcurl 2902 (upload_request e dar_bytes version))]\<rparr>)) = (Inr (), st')"
    by (rule upload_dar_main_Inr)
  from update_package_config_reads [OF u] obtain content where
    c: "read_config e st = Inr content" and w: "\<not> unwritable e (config_path e)"
    by (auto simp: vet_dar_trace read_config_trace)
  have o: "registry_entries e st = Inr (parse_versions content)"
    by (simp add: registry_entries_def c)
  from upload_dar_main_completes [OF v d p r c w] assms obtain items t where
    st': "st' = st\<lparr>trace := t, files := (files st)(config_path e \<mapsto>
              registry_text version (py_str e package_id) items)\<rparr>" and
    s: "sorted_wrt (\<lambda>a b. fst b < fst a) items" and
    m: "map_of items = (map_of (parse_versions content))(version \<mapsto> py_str e package_id)" and
    b: "plain_text version \<and> plain_text (py_str e package_id) \<longrightarrow>
        parse_versions (universal_newlines (registry_text version (py_str e package_id) items)) =
          items"
    by auto
  have f: "files st' (config_path e) = Some (registry_text version (py_str e package_id) items)"
    unfolding st' by simp
  have e': "registry_entries e st' = Inr items"
    if "plain_text version \<and> plain_text (py_str e package_id) \<and> \<not> unreadable e (config_path e)"
  proof -
    from that have "\<not> unreadable e (config_path e)" by simp
    from registry_entries_of_file [OF this f]
    have "registry_entries e st' = Inr (parse_versions (universal_newlines
        (registry_text version (py_str e package_id) items)))" .
    moreover from b that
    have "parse_versions (universal_newlines (registry_text version (py_str e package_id) items)) =
          items" by blast
    ultimately show ?thesis by (simp only:)
  qed
  from v d p o f s m e' show ?thesis by blast
qed

lemma registry_run_simps:
  "upload_request registry_env ''DAR'' ''0.9.0'' =
     UploadDar ''DAR'' ''MinimalToken v0.9.0 - ProposeBurn/AcceptBurn pattern''"
  "grpcurl registry_env = demo_grpcurl 0 0 0 1 registry_stdout"
  "provider_package_id registry_env \<lparr>returncode = 0, stdout = registry_stdout, stderr = x\<rparr> =
     Inr (PStr ''old999'')"
  "trace registry_state = []"
  by (simp_all add: upload_request_def registry_env_def provider_package_id_def
      extract_package_id_def registry_state_def)

lemma update_registry_trace:
  "update_package_config registry_env (PStr ''old999'') ''0.9.0'' (registry_state\<lparr>trace := t\<rparr>) =
     (Inr (),
      registry_state\<lparr>trace := t,
        files := (files registry_state)(''/repo/src/config/packageConfig.js'' \<mapsto>
          registry_text_090)\<rparr>)"
proof -
  have r: "read_config registry_env (registry_state\<lparr>trace := t\<rparr>) = Inr registry_text_100"
    by (simp only: read_config_trace registry_read_config)
  have "rev (sort (AList.update ''0.9.0'' (py_str registry_env (PStr ''old999''))
      [(''1.0.0'', ''abc123'')])) = [(''1.0.0'', ''abc123''), (''0.9.0'', ''old999'')]"
    by (simp add: registry_env_simps example_sorts)
  from update_package_config_example [OF r registry_env_simps(6) parse_registry_text_100 this]
  have "update_package_config registry_env (PStr ''old999'') ''0.9.0''
      (registry_state\<lparr>trace := t\<rparr>) =
     (Inr (),
      registry_state\<lparr>trace := t\<rparr>\<lparr>files := (files (registry_state\<lparr>trace := t\<rparr>))
        (''/repo/src/config/packageConfig.js'' \<mapsto> registry_text_090)\<rparr>)"
    by (simp only: registry_env_simps example_texts)
  then show ?thesis by simp
qed

lemma registry_run:
  "upload_dar_main registry_env registry_state =
     (Inr (),
      registry_state\<lparr>trace :=
         [Call (Grpcurl 3902 (UploadDar ''DAR'' ''MinimalToken v0.9.0 - ProposeBurn/AcceptBurn pattern'')),
          Call (Grpcurl 2902 (UploadDar ''DAR'' ''MinimalToken v0.9.0 - ProposeBurn/AcceptBurn pattern'')),
          Call (Grpcurl 3902 (VetDar (PStr ''old999''))),
          Call (Grpcurl 2902 (VetDar (PStr ''old999''))),
          Warning ''app-user'' ''vetting refused''],
        files := (files registry_state)(''/repo/src/config/packageConfig.js'' \<mapsto>
          registry_text_090)\<rparr>)"
proof -
  have "upload_dar_main registry_env registry_state =
      update_package_config registry_env (PStr ''old999'') ''0.9.0''
        (vet_dar registry_env (PStr ''old999'')
          (registry_state\<lparr>trace := trace registry_state @
             [Call (Grpcurl 3902 (upload_request registry_env ''DAR'' ''0.9.0'')),
              Call (Grpcurl 2902 (upload_request registry_env ''DAR'' ''0.9.0''))]\<rparr>))"
    by (simp add: upload_dar_main_cases [of registry_env registry_state "''0.9.0''" "''DAR''"]
        registry_env_simps registry_run_simps demo_grpcurl_simps Let_def)
  also have "\<dots> = update_package_config registry_env (PStr ''old999'') ''0.9.0''
      (registry_state\<lparr>trace :=
         [Call (Grpcurl 3902 (UploadDar ''DAR'' ''MinimalToken v0.9.0 - ProposeBurn/AcceptBurn pattern'')),
          Call (Grpcurl 2902 (UploadDar ''DAR'' ''MinimalToken v0.9.0 - ProposeBurn/AcceptBurn pattern'')),
          Call (Grpcurl 3902 (VetDar (PStr ''old999''))),
          Call (Grpcurl 2902 (VetDar (PStr ''old999''))),
          Warning ''app-user'' ''vetting refused'']\<rparr>)"
    by (simp add: vet_dar_trace registry_run_simps demo_grpcurl_simps)
  finally show ?thesis
    by (simp only: update_registry_trace)
qed

theorem completed_run_registers_version_witness:
  "upload_dar_main registry_env registry_state =
     (Inr (),
      registry_state\<lparr>trace :=
         [Call (Grpcurl 3902 (UploadDar ''DAR'' ''MinimalToken v0.9.0 - ProposeBurn/AcceptBurn pattern'')),
          Call (Grpcurl 2902 (UploadDar ''DAR'' ''MinimalToken v0.9.0 - ProposeBurn/AcceptBurn pattern'')),
          Call (Grpcurl 3902 (VetDar (PStr ''old999''))),
          Call (Grpcurl 2902 (VetDar (PStr ''old999''))),
          Warning ''app-user'' ''vetting refused''],
        files := (files registry_state)(''/repo/src/config/packageConfig.js'' \<mapsto>
          registry_text_090)\<rparr>) \<and>
   registry_entries registry_env registry_state = Inr [(''1.0.0'', ''abc123'')] \<and>
   registry_entries registry_env
     (registry_state\<lparr>trace :=
         [Call (Grpcurl 3902 (UploadDar ''DAR'' ''MinimalToken v0.9.0 - ProposeBurn/AcceptBurn pattern'')),
          Call (Grpcurl 2902 (UploadDar ''DAR'' ''MinimalToken v0.9.0 - ProposeBurn/AcceptBurn pattern'')),
          Call (Grpcurl 3902 (VetDar (PStr ''old999''))),
          Call (Grpcurl 2902 (VetDar (PStr ''old999''))),
          Warning ''app-user'' ''vetting refused''],
        files := (files registry_state)(''/repo/src/config/packageConfig.js'' \<mapsto>
          registry_text_090)\<rparr>) = Inr [(''1.0.0'', ''abc123''), (''0.9.0'', ''old999'')]"
proof -
  let ?st' = "registry_state\<lparr>trace :=
         [Call (Grpcurl 3902 (UploadDar ''DAR'' ''MinimalToken v0.9.0 - ProposeBurn/AcceptBurn pattern'')),
          Call (Grpcurl 2902 (UploadDar ''DAR'' ''MinimalToken v0.9.0 - ProposeBurn/AcceptBurn pattern'')),
          Call (Grpcurl 3902 (VetDar (PStr ''old999''))),
          Call (Grpcurl 2902 (VetDar (PStr ''old999''))),
          Warning ''app-user'' ''vetting refused''],
        files := (files registry_state)(''/repo/src/config/packageConfig.js'' \<mapsto>
          registry_text_090)\<rparr>"
  from completed_run_registers_version [OF registry_run]
  obtain package_id old items where
    p: "provider_package_id registry_env
          (grpcurl registry_env (Grpcurl 3902 (upload_request registry_env ''DAR'' ''0.9.0''))) =
        Inr package_id" and
    o: "registry_entries registry_env registry_state = Inr old" and
    f: "files ?st' (config_path registry_env) =
          Some (registry_text ''0.9.0'' (py_str registry_env package_id) items)" and
    m: "map_of items = (map_of old)(''0.9.0'' \<mapsto> py_str registry_env package_id)" and
    b: "plain_text ''0.9.0'' \<and> plain_text (py_str registry_env package_id) \<and>
        \<not> unreadable registry_env (config_path registry_env) \<longrightarrow>
          registry_entries registry_env ?st' = Inr items"
    by (auto simp: registry_env_simps)
  from p have i: "package_id = PStr ''old999''"
    by (simp add: registry_run_simps demo_grpcurl_simps)
  from b have r: "registry_entries registry_env ?st' = Inr items"
    by (simp add: i registry_env_simps plain_examples)
  have "registry_entries registry_env ?st' = Inr [(''1.0.0'', ''abc123''), (''0.9.0'', ''old999'')]"
    using registry_entries_of_file [of registry_env ?st' registry_text_090]
    by (simp add: registry_env_simps example_texts_no_cr parse_registry_text_090)
  with r o registry_run registry_entries_examples(1) show ?thesis by simp
qed

lemma brace_simps:
  "resolve_version (demo_env brace_argv g) st = Inr ''1.0.0}''"
  "files brace_state (get_dar_path (demo_env a g) ''1.0.0}'') = Some ''DAR''"
  "upload_request (demo_env a g) ''DAR'' ''1.0.0}'' =
     UploadDar ''DAR'' ''MinimalToken v1.0.0} - ProposeBurn/AcceptBurn pattern''"
  "trace brace_state = []"
  "read_config (demo_env a g) (brace_state\<lparr>trace := t\<rparr>) = Inr default_content"
  by (simp_all add: resolve_version_def demo_env_def brace_argv_def get_dar_path_def
      DAML_PROJECT_PATH_def path_join_def brace_state_def upload_request_def read_config_def
      config_path_def)

lemma update_brace_trace:
  "update_package_config (demo_env a g) (PStr ''abc123'') ''1.0.0}'' (brace_state\<lparr>trace := t\<rparr>) =
     (Inr (),
      brace_state\<lparr>trace := t,
        files := (files brace_state)(''/repo/src/config/packageConfig.js'' \<mapsto>
          registry_text_brace)\<rparr>)"
proof -
  have "rev (sort (AList.update ''1.0.0}'' (py_str (demo_env a g) (PStr ''abc123'')) [])) =
      [(''1.0.0}'', ''abc123'')]"
    by (simp add: demo_py_str)
  from update_package_config_example [OF brace_simps(5) demo_io(2) parse_default_content this]
  have "update_package_config (demo_env a g) (PStr ''abc123'') ''1.0.0}''
      (brace_state\<lparr>trace := t\<rparr>) =
     (Inr (),
      brace_state\<lparr>trace := t\<rparr>\<lparr>files := (files (brace_state\<lparr>trace := t\<rparr>))
        (''/repo/src/config/packageConfig.js'' \<mapsto> registry_text_brace)\<rparr>)"
    by (simp only: demo_py_str demo_config_path example_texts)
  then show ?thesis by simp
qed

lemma brace_run:
  "upload_dar_main (demo_env brace_argv (demo_grpcurl 0 0 0 0 demo_stdout)) brace_state =
     (Inr (),
      brace_state\<lparr>trace :=
         [Call (Grpcurl 3902 (UploadDar ''DAR'' ''MinimalToken v1.0.0} - ProposeBurn/AcceptBurn pattern'')),
          Call (Grpcurl 2902 (UploadDar ''DAR'' ''MinimalToken v1.0.0} - ProposeBurn/AcceptBurn pattern'')),
          Call (Grpcurl 3902 (VetDar (PStr ''abc123''))),
          Call (Grpcurl 2902 (VetDar (PStr ''abc123'')))],
        files := (files brace_state)(''/repo/src/config/packageConfig.js'' \<mapsto>
          registry_text_brace)\<rparr>)"
proof -
  let ?e = "demo_env brace_argv (demo_grpcurl 0 0 0 0 demo_stdout)"
  have "upload_dar_main ?e brace_state =
      update_package_config ?e (PStr ''abc123'') ''1.0.0}''
        (vet_dar ?e (PStr ''abc123'')
          (brace_state\<lparr>trace := trace brace_state @
             [Call (Grpcurl 3902 (upload_request ?e ''DAR'' ''1.0.0}'')),
              Call (Grpcurl 2902 (upload_request ?e ''DAR'' ''1.0.0}''))]\<rparr>))"
    by (simp add: upload_dar_main_cases [of ?e brace_state "''1.0.0}''" "''DAR''"]
        brace_simps demo_grpcurl_simps demo_package_id Let_def)
  also have "\<dots> = update_package_config ?e (PStr ''abc123'') ''1.0.0}''
      (brace_state\<lparr>trace :=
         [Call (Grpcurl 3902 (UploadDar ''DAR'' ''MinimalToken v1.0.0} - ProposeBurn/AcceptBurn pattern'')),
          Call (Grpcurl 2902 (UploadDar ''DAR'' ''MinimalToken v1.0.0} - ProposeBurn/AcceptBurn pattern'')),
          Call (Grpcurl 3902 (VetDar (PStr ''abc123''))),
          Call (Grpcurl 2902 (VetDar (PStr ''abc123'')))]\<rparr>)"
    by (simp add: vet_dar_trace brace_simps demo_grpcurl_simps)
  finally show ?thesis
    by (simp only: update_brace_trace)
qed

text \<open>
  Claim C5 as stated fails for a version that contains a closing brace: the run for
  the version \<^verbatim>\<open>1.0.0}\<close>, whose DAR exists, completes and writes the registry file,
  and the entries read from the file written are none.
\<close>

theorem completed_run_without_entry_counterexample:
  "resolve_version (demo_env brace_argv (demo_grpcurl 0 0 0 0 demo_stdout)) brace_state =
     Inr ''1.0.0}'' \<and>
   files brace_state ''/repo/daml/minimal-token/.daml/dist/minimal-token-1.0.0}.dar'' =
     Some ''DAR'' \<and>
   upload_dar_main (demo_env brace_argv (demo_grpcurl 0 0 0 0 demo_stdout)) brace_state =
     (Inr (),
      brace_state\<lparr>trace :=
         [Call (Grpcurl 3902 (UploadDar ''DAR'' ''MinimalToken v1.0.0} - ProposeBurn/AcceptBurn pattern'')),
          Call (Grpcurl 2902 (UploadDar ''DAR'' ''MinimalToken v1.0.0} - ProposeBurn/AcceptBurn pattern'')),
          Call (Grpcurl 3902 (VetDar (PStr ''abc123''))),
          Call (Grpcurl 2902 (VetDar (PStr ''abc123'')))],
        files := (files brace_state)(''/repo/src/config/packageConfig.js'' \<mapsto>
          registry_text_brace)\<rparr>) \<and>
   registry_entries (demo_env brace_argv (demo_grpcurl 0 0 0 0 demo_stdout))
     (brace_state\<lparr>trace :=
         [Call (Grpcurl 3902 (UploadDar ''DAR'' ''MinimalToken v1.0.0} - ProposeBurn/AcceptBurn pattern'')),
          Call (Grpcurl 2902 (UploadDar ''DAR'' ''MinimalToken v1.0.0} - ProposeBurn/AcceptBurn pattern'')),
          Call (Grpcurl 3902 (VetDar (PStr ''abc123''))),
          Call (Grpcurl 2902 (VetDar (PStr ''abc123'')))],
        files := (files brace_state)(''/repo/src/config/packageConfig.js'' \<mapsto>
          registry_text_brace)\<rparr>) = Inr []"
proof -
  let ?e = "demo_env brace_argv (demo_grpcurl 0 0 0 0 demo_stdout)"
  let ?st' = "brace_state\<lparr>trace :=
         [Call (Grpcurl 3902 (UploadDar ''DAR'' ''MinimalToken v1.0.0} - ProposeBurn/AcceptBurn pattern'')),
          Call (Grpcurl 2902 (UploadDar ''DAR'' ''MinimalToken v1.0.0} - ProposeBurn/AcceptBurn pattern'')),
          Call (Grpcurl 3902 (VetDar (PStr ''abc123''))),
          Call (Grpcurl 2902 (VetDar (PStr ''abc123'')))],
        files := (files brace_state)(''/repo/src/config/packageConfig.js'' \<mapsto>
          registry_text_brace)\<rparr>"
  have "registry_entries ?e ?st' = Inr []"
    using registry_entries_of_file [of ?e ?st' registry_text_brace]
    by (simp add: demo_config_path demo_io example_texts_no_cr parse_registry_text_brace)
  moreover have "files brace_state ''/repo/daml/minimal-token/.daml/dist/minimal-token-1.0.0}.dar'' =
     Some ''DAR''"
    by (simp add: brace_state_def)
  ultimately show ?thesis using brace_run brace_simps(1) by simp
qed


end
